theory Spec2Isabelle
  imports Main "HOL-Library.Sublist"
begin

section \<open>JavaScript values as the page observes them\<close>

text \<open>
  \<^verbatim>\<open>interface ExtractedData { [key: string]: any }\<close>: a field of an extraction record is
  whatever the JSON of the response holds: null, a boolean, a number, a string, an array or
  an object; \<open>JUndefined\<close> is the read of a key that is absent. The page looks at such a
  value in four ways only: its truthiness (the operator \<^verbatim>\<open>||\<close>), its string form
  (\<^verbatim>\<open>String(val)\<close> and template literals), whether it is nullish (\<^verbatim>\<open>?.\<close>) and
  whether it is a string (\<^verbatim>\<open>.split\<close>, \<^verbatim>\<open>.trim\<close>).

  The page never computes with a number of a record. A number is therefore given by the
  two things the page can see of it: \<open>JNum z s\<close> is a number that is falsy (zero or NaN)
  exactly when \<open>z\<close> holds and whose string form is \<open>s\<close>, whatever the rounding of the
  JSON parser and the notation of \<^verbatim>\<open>Number.prototype.toString\<close> made of it. The numbers
  the page makes itself are the positions of an array, which print in decimal.
  Strings are lists of code units below 256.
\<close>

datatype jsval =
    JUndefined
  | JNull
  | JBool bool
  | JNum bool string
  | JStr string
  | JArr "jsval list"
  | JObj "(string \<times> jsval) list"

datatype error = TypeError string

fun truthy :: "jsval \<Rightarrow> bool" where
  "truthy JUndefined = False"
| "truthy JNull = False"
| "truthy (JBool b) = b"
| "truthy (JNum z s) = (\<not> z)"
| "truthy (JStr s) = (s \<noteq> [])"
| "truthy (JArr xs) = True"
| "truthy (JObj ps) = True"

fun nullish :: "jsval \<Rightarrow> bool" where
  "nullish JUndefined = True"
| "nullish JNull = True"
| "nullish _ = False"

definition digit :: "nat \<Rightarrow> char" where
  "digit d = char_of (48 + d)"

fun digits :: "nat \<Rightarrow> string" where
  "digits n = (if n < 10 then [digit n] else digits (n div 10) @ [digit (n mod 10)])"

declare digits.simps [simp del]

definition showInt :: "int \<Rightarrow> string" where
  "showInt i = (if i < 0 then CHR ''-'' # digits (nat (- i)) else digits (nat i))"

text \<open>The number of a position or of a count of the page: \<^verbatim>\<open>index\<close>, \<^verbatim>\<open>index + 1\<close>.\<close>

definition numberOfNat :: "nat \<Rightarrow> jsval" where
  "numberOfNat n = JNum (n = 0) (digits n)"

text \<open>\<^verbatim>\<open>xs.join(sep)\<close> on an array of strings.\<close>

fun join :: "string \<Rightarrow> string list \<Rightarrow> string" where
  "join sep [] = []"
| "join sep [x] = x"
| "join sep (x # y # ys) = x @ sep @ join sep (y # ys)"

text \<open>\<^verbatim>\<open>String(val)\<close>, also what a template literal does to its hole. An array prints
  its elements with commas between them, a null or undefined element as nothing; an object
  of JSON prints as \<open>[object Object]\<close>.\<close>

fun toString :: "jsval \<Rightarrow> string" where
  "toString JUndefined = ''undefined''"
| "toString JNull = ''null''"
| "toString (JBool b) = (if b then ''true'' else ''false'')"
| "toString (JNum z s) = s"
| "toString (JStr s) = s"
| "toString (JArr xs) = join '','' (map (\<lambda>x. if nullish x then [] else toString x) xs)"
| "toString (JObj ps) = ''[object Object]''"

text \<open>\<^verbatim>\<open>a || b\<close> on values, and on operands whose evaluation may throw: the right operand
  is evaluated only when the left one is falsy.\<close>

definition jsOr :: "jsval \<Rightarrow> jsval \<Rightarrow> jsval" where
  "jsOr a b = (if truthy a then a else b)"

definition orElse :: "error + jsval \<Rightarrow> error + jsval \<Rightarrow> error + jsval" where
  "orElse a b = (case a of Inl e \<Rightarrow> Inl e | Inr v \<Rightarrow> if truthy v then Inr v else b)"

subsection \<open>String methods\<close>

definition toLowerChar :: "char \<Rightarrow> char" where
  "toLowerChar c =
     (let n = (of_char c :: nat)
      in if (65 \<le> n \<and> n \<le> 90) \<or> (192 \<le> n \<and> n \<le> 222 \<and> n \<noteq> 215)
         then char_of (n + 32) else c)"

definition toLowerCase :: "string \<Rightarrow> string" where
  "toLowerCase s = map toLowerChar s"

text \<open>\<^verbatim>\<open>s.includes(sub)\<close>: \<open>sub\<close> occurs in \<open>s\<close> at some position.\<close>

fun includes_str :: "string \<Rightarrow> string \<Rightarrow> bool" where
  "includes_str [] sub = (sub = [])"
| "includes_str (c # s) sub = (prefix sub (c # s) \<or> includes_str s sub)"

text \<open>\<^verbatim>\<open>s.split(sep)\<close> for a separator of one character: the pieces between the
  separators, at least one piece.\<close>

fun split :: "char \<Rightarrow> string \<Rightarrow> string list" where
  "split sep [] = [[]]"
| "split sep (c # s) =
     (if c = sep then [] # split sep s
      else (case split sep s of p # ps \<Rightarrow> (c # p) # ps | [] \<Rightarrow> [[c]]))"

definition isWhiteSpace :: "char \<Rightarrow> bool" where
  "isWhiteSpace c = ((of_char c :: nat) \<in> {9, 10, 11, 12, 13, 32, 160})"

definition trim :: "string \<Rightarrow> string" where
  "trim s = rev (dropWhile isWhiteSpace (rev (dropWhile isWhiteSpace s)))"

text \<open>\<^verbatim>\<open>xs[i]\<close> on an array: \<open>undefined\<close> beyond its end.\<close>

definition nth_opt :: "'a list \<Rightarrow> nat \<Rightarrow> 'a option" where
  "nth_opt xs i = (if i < length xs then Some (xs ! i) else None)"

section \<open>The data of the page\<close>

text \<open>
  An extraction record is the JSON object of one document: its keys in the order in which
  JavaScript lists them, each key once. \<open>get d k\<close> is the read \<^verbatim>\<open>d[k]\<close>.
\<close>

type_synonym ExtractedData = "(string \<times> jsval) list"

definition get :: "ExtractedData \<Rightarrow> string \<Rightarrow> jsval" where
  "get d k = (case map_of d k of None \<Rightarrow> JUndefined | Some v \<Rightarrow> v)"

datatype Status = Success | Error

record ResultItem =
  filename :: jsval
  status :: Status
  data :: "ExtractedData option"
  error :: "string option"

record DownloadLinks =
  excel :: "string option"
  zip_link :: "string option"

record FileInfo =
  excel_filename :: "string option"
  zip_filename :: "string option"
  zip_size :: "int option"
  total_renamed_files :: "int option"
  total_records :: "int option"

record ApiResponse =
  success :: bool
  timestamp :: string
  total_files :: int
  processed_files :: int
  failed_files :: "int option"
  results :: "ResultItem list option"
  extraction_data :: "ExtractedData list option"
  renamed_files :: "(string \<times> string) list option"
  download_links :: "DownloadLinks option"
  file_info :: "FileInfo option"

section \<open>The results table\<close>

text \<open>\<^verbatim>\<open>r.status === "success" && r.data\<close>, the test of every filter and find on the items.\<close>

definition successful :: "ResultItem \<Rightarrow> bool" where
  "successful r = (status r = Success \<and> data r \<noteq> None)"

definition columnsFor :: "string \<Rightarrow> string list" where
  "columnsFor documentType =
    (if documentType = ''SKTT'' then
       [''Name'', ''NIK'', ''Place of Birth'', ''Date of Birth'', ''Gender'', ''Nationality'',
        ''Occupation'', ''Address'', ''KITAS/KITAP'', ''Passport Expiry'', ''Date Issue'',
        ''Document Type'']
     else if documentType = ''EVLN'' then
       [''Name'', ''Place of Birth'', ''Date of Birth'', ''Passport No'', ''Passport Expiry'',
        ''Date Issue'', ''Document Type'']
     else if documentType = ''ITAS'' \<or> documentType = ''ITK'' then
       [''Name'', ''Permit Number'', ''Place & Date of Birth'', ''Passport Number'',
        ''Passport Expiry'', ''Nationality'', ''Gender'', ''Address'', ''Occupation'',
        ''Date Issue'', ''Document Type'']
     else if documentType = ''Notifikasi'' then
       [''Nomor Keputusan'', ''Nama TKA'', ''Tempat/Tanggal Lahir'', ''Kewarganegaraan'',
        ''Alamat Tempat Tinggal'', ''Nomor Paspor'', ''Jabatan'', ''Lokasi Kerja'', ''Berlaku'',
        ''Date Issue'', ''Document Type'']
     else if documentType = ''DKPTKA'' then
       [''Nama Pemberi Kerja'', ''Alamat'', ''No Telepon'', ''Email'', ''Nama TKA'',
        ''Tempat/Tanggal Lahir'', ''Nomor Paspor'', ''Kewarganegaraan'', ''Jabatan'',
        ''Lokasi Kerja'', ''Kode Billing Pembayaran'', ''DKPTKA'', ''Document Type'']
     else
       [''Name'', ''Place of Birth'', ''Date of Birth'', ''Passport No'', ''Passport Expiry'',
        ''Date Issue'', ''Document Type''])"

text \<open>\<open>getTableColumns\<close> reads the held response and the selected document type: no
  columns until the response holds a successful item with data.\<close>

definition getTableColumns :: "ApiResponse option \<Rightarrow> string \<Rightarrow> string list" where
  "getTableColumns res documentType =
    (case res of
       None \<Rightarrow> []
     | Some r \<Rightarrow>
        (case results r of
           None \<Rightarrow> []
         | Some rs \<Rightarrow>
            if rs = [] then []
            else (case find successful rs of
                    None \<Rightarrow> []
                  | Some _ \<Rightarrow> columnsFor documentType)))"

text \<open>The guard of \<open>getTableColumns\<close> as one condition: a response is held, it has
  items, and one of them has status success and data.\<close>

definition hasSuccessful :: "ApiResponse option \<Rightarrow> bool" where
  "hasSuccessful res =
    (case res of
       None \<Rightarrow> False
     | Some r \<Rightarrow> (case results r of None \<Rightarrow> False | Some rs \<Rightarrow> list_ex successful rs))"

text \<open>
  A row of the table is the object \<^verbatim>\<open>{ index, filename: result.filename, ...result.data }\<close>.
  An object lists its keys as JavaScript does: first the keys that are array indices (the
  decimal numerals below \<open>2^32 - 1\<close>), in ascending order, then the other keys in the
  order of their creation. Assigning a key that the object has replaces its value where it
  stands; a new key takes its place in that order.
\<close>

type_synonym Row = "(string \<times> jsval) list"

definition isDigit :: "char \<Rightarrow> bool" where
  "isDigit c = (48 \<le> (of_char c :: nat) \<and> (of_char c :: nat) \<le> 57)"

text \<open>The order of two numerals of one length, digit by digit; and the order of the numbers
  that two numerals without a leading zero stand for: the shorter numeral is the smaller
  number.\<close>

fun digitsLess :: "string \<Rightarrow> string \<Rightarrow> bool" where
  "digitsLess (a # as) (b # bs) =
     ((of_char a :: nat) < of_char b \<or> (a = b \<and> digitsLess as bs))"
| "digitsLess _ _ = False"

definition indexLess :: "string \<Rightarrow> string \<Rightarrow> bool" where
  "indexLess k k' = (length k < length k' \<or> (length k = length k' \<and> digitsLess k k'))"

definition isArrayIndex :: "string \<Rightarrow> bool" where
  "isArrayIndex k =
     (k \<noteq> [] \<and> list_all isDigit k \<and> (k = ''0'' \<or> hd k \<noteq> CHR ''0'') \<and>
      indexLess k ''4294967295'')"

fun replaceKey :: "string \<Rightarrow> jsval \<Rightarrow> Row \<Rightarrow> Row" where
  "replaceKey k v [] = []"
| "replaceKey k v ((k', v') # ps) =
     (if k' = k then (k, v) # ps else (k', v') # replaceKey k v ps)"

fun insertKey :: "string \<Rightarrow> jsval \<Rightarrow> Row \<Rightarrow> Row" where
  "insertKey k v [] = [(k, v)]"
| "insertKey k v ((k', v') # ps) =
     (if isArrayIndex k \<and> (\<not> isArrayIndex k' \<or> indexLess k k')
      then (k, v) # (k', v') # ps
      else (k', v') # insertKey k v ps)"

definition assign :: "string \<Rightarrow> jsval \<Rightarrow> Row \<Rightarrow> Row" where
  "assign k v obj = (if k \<in> fst ` set obj then replaceKey k v obj else insertKey k v obj)"

definition spread :: "Row \<Rightarrow> ExtractedData option \<Rightarrow> Row" where
  "spread obj src =
     (case src of None \<Rightarrow> obj | Some d \<Rightarrow> fold (\<lambda>(k, v). assign k v) d obj)"

definition tableRow :: "nat \<Rightarrow> ResultItem \<Rightarrow> Row" where
  "tableRow index result =
     spread [(''index'', numberOfNat index), (''filename'', filename result)] (data result)"

definition getTableData :: "ApiResponse option \<Rightarrow> Row list" where
  "getTableData res =
    (case res of
       None \<Rightarrow> []
     | Some r \<Rightarrow>
        (case results r of
           None \<Rightarrow> []
         | Some rs \<Rightarrow> map (\<lambda>(index, result). tableRow index result)
                       (enumerate 0 (filter successful rs))))"

text \<open>The filter of the table body: every row when the query is empty, else the rows one of
  whose values, as a string in lower case, includes the query in lower case.\<close>

definition matchesQuery :: "string \<Rightarrow> Row \<Rightarrow> bool" where
  "matchesQuery searchQuery row =
     (searchQuery = [] \<or>
      list_ex (\<lambda>val. includes_str (toLowerCase (toString val)) (toLowerCase searchQuery))
        (map snd row))"

definition filterBySearch :: "Row list \<Rightarrow> string \<Rightarrow> Row list" where
  "filterBySearch rows searchQuery = filter (matchesQuery searchQuery) rows"

text \<open>What the specification asks of the filter, in its words: the query matches a text
  when some part of the text equals the query up to the case of the letters.\<close>

definition containsIgnoringCase :: "string \<Rightarrow> string \<Rightarrow> bool" where
  "containsIgnoringCase text query =
     (\<exists>before part after. text = before @ part @ after \<and> toLowerCase part = toLowerCase query)"

text \<open>A cell of the table: \<^verbatim>\<open>row[column] || "-"\<close>; a row of cells, one for each column.
  The model gives the value of each cell; what React makes of a value when it renders the
  cell is not part of it.\<close>

definition displayCell :: "Row \<Rightarrow> string \<Rightarrow> jsval" where
  "displayCell row column = jsOr (get row column) (JStr ''-'')"

definition projectRow :: "ApiResponse option \<Rightarrow> string \<Rightarrow> Row \<Rightarrow> (string \<times> jsval) list" where
  "projectRow res documentType row =
     map (\<lambda>column. (column, displayCell row column)) (getTableColumns res documentType)"

section \<open>The export records of \<open>downloadAsExcel\<close>\<close>

text \<open>
  Each field of an export record is a chain \<^verbatim>\<open>a || b || ... || ""\<close> of reads of the
  extraction record. A read is \<^verbatim>\<open>data?.[k]\<close>, \<^verbatim>\<open>data?.[k]?.split(",")[0]\<close> or
  \<^verbatim>\<open>data?.[k]?.split(",")[1]?.trim()\<close>. The optional call \<^verbatim>\<open>?.split\<close> gives
  \<open>undefined\<close> on a nullish value, splits a string, and throws on any other value, which
  has no method \<open>split\<close>.
\<close>

datatype Source = Key string | SplitFirst string | SplitSecondTrim string

definition splitFirst :: "jsval \<Rightarrow> error + jsval" where
  "splitFirst v =
    (case v of
       JStr s \<Rightarrow> (case nth_opt (split CHR '','' s) 0 of
                   None \<Rightarrow> Inr JUndefined | Some p \<Rightarrow> Inr (JStr p))
     | JUndefined \<Rightarrow> Inr JUndefined
     | JNull \<Rightarrow> Inr JUndefined
     | _ \<Rightarrow> Inl (TypeError ''split is not a function''))"

definition splitSecondTrim :: "jsval \<Rightarrow> error + jsval" where
  "splitSecondTrim v =
    (case v of
       JStr s \<Rightarrow> (case nth_opt (split CHR '','' s) 1 of
                   None \<Rightarrow> Inr JUndefined | Some p \<Rightarrow> Inr (JStr (trim p)))
     | JUndefined \<Rightarrow> Inr JUndefined
     | JNull \<Rightarrow> Inr JUndefined
     | _ \<Rightarrow> Inl (TypeError ''split is not a function''))"

fun readSource :: "ExtractedData \<Rightarrow> Source \<Rightarrow> error + jsval" where
  "readSource d (Key k) = Inr (get d k)"
| "readSource d (SplitFirst k) = splitFirst (get d k)"
| "readSource d (SplitSecondTrim k) = splitSecondTrim (get d k)"

fun resolve :: "ExtractedData \<Rightarrow> Source list \<Rightarrow> error + jsval" where
  "resolve d [] = Inr (JStr [])"
| "resolve d (src # srcs) = orElse (readSource d src) (resolve d srcs)"


text \<open>The two object literals of \<open>downloadAsExcel\<close>, after \<^verbatim>\<open>...baseData\<close>.\<close>

definition dkptkaFields :: "(string \<times> Source list) list" where
  "dkptkaFields =
    [(''Nama Pemberi Kerja'', [Key ''Nama Pemberi Kerja'']),
     (''Alamat'', [Key ''Alamat'']),
     (''No Telepon'', [Key ''No Telepon'']),
     (''Email'', [Key ''Email'']),
     (''Nama TKA'', [Key ''Nama TKA'']),
     (''Tempat/Tanggal Lahir'', [Key ''Tempat/Tanggal Lahir'']),
     (''Nomor Paspor'', [Key ''Nomor Paspor'']),
     (''Kewarganegaraan'', [Key ''Kewarganegaraan'']),
     (''Jabatan'', [Key ''Jabatan'']),
     (''Lokasi Kerja'', [Key ''Lokasi Kerja'']),
     (''Kode Billing Pembayaran'', [Key ''Kode Billing Pembayaran'']),
     (''DKPTKA'', [Key ''DKPTKA''])]"

definition otherFields :: "(string \<times> Source list) list" where
  "otherFields =
    [(''Name'', [Key ''Name'', Key ''Nama TKA'']),
     (''Place of Birth'', [Key ''Place of Birth'', SplitFirst ''Place & Date of Birth'']),
     (''Date of Birth'',
        [Key ''Date of Birth'', SplitSecondTrim ''Place & Date of Birth'',
         Key ''Tempat/Tanggal Lahir'']),
     (''Passport No'', [Key ''Passport No'', Key ''Passport Number'', Key ''Nomor Paspor'']),
     (''Passport Expiry'', [Key ''Passport Expiry'']),
     (''Date Issue'', [Key ''Date Issue'']),
     (''NIK'', [Key ''NIK'']),
     (''Nationality'', [Key ''Nationality'', Key ''Kewarganegaraan'']),
     (''Gender'', [Key ''Jenis Kelamin'', Key ''Gender'']),
     (''Address'', [Key ''Address'', Key ''Alamat Tempat Tinggal'']),
     (''Occupation'', [Key ''Occupation'', Key ''Jabatan'']),
     (''Permit Number'', [Key ''Permit Number'']),
     (''Stay Permit Expiry'', [Key ''Stay Permit Expiry'']),
     (''Nomor Keputusan'', [Key ''Nomor Keputusan'']),
     (''Lokasi Kerja'', [Key ''Lokasi Kerja'']),
     (''Berlaku'', [Key ''Berlaku''])]"

definition exportFields :: "string \<Rightarrow> (string \<times> Source list) list" where
  "exportFields documentType =
     (if documentType = ''DKPTKA'' then dkptkaFields else otherFields)"

text \<open>An object literal evaluates its fields in order; the first one that throws ends it.\<close>

fun evalFields :: "ExtractedData \<Rightarrow> (string \<times> Source list) list \<Rightarrow> error + Row" where
  "evalFields d [] = Inr []"
| "evalFields d ((column, srcs) # fs) =
     (case resolve d srcs of
        Inl e \<Rightarrow> Inl e
      | Inr v \<Rightarrow> (case evalFields d fs of
                    Inl e \<Rightarrow> Inl e
                  | Inr row \<Rightarrow> Inr ((column, v) # row)))"

definition dataOf :: "ResultItem \<Rightarrow> ExtractedData" where
  "dataOf result = (case data result of None \<Rightarrow> [] | Some d \<Rightarrow> d)"

definition baseData :: "string \<Rightarrow> nat \<Rightarrow> ResultItem \<Rightarrow> Row" where
  "baseData documentType index result =
     [(''No'', numberOfNat (index + 1)),
      (''Filename'', filename result),
      (''Document Type'', jsOr (get (dataOf result) ''Jenis Dokumen'') (JStr documentType))]"

definition exportRecord :: "string \<Rightarrow> nat \<Rightarrow> ResultItem \<Rightarrow> error + Row" where
  "exportRecord documentType index result =
     (case evalFields (dataOf result) (exportFields documentType) of
        Inl e \<Rightarrow> Inl e
      | Inr resolved \<Rightarrow> Inr (baseData documentType index result @ resolved))"

text \<open>The value of a column in the export record of an item, or the error thrown while the
  record was built.\<close>

definition exportedValue :: "string \<Rightarrow> nat \<Rightarrow> ResultItem \<Rightarrow> string \<Rightarrow> error + jsval" where
  "exportedValue documentType index result column =
     (case exportRecord documentType index result of
        Inl e \<Rightarrow> Inl e
      | Inr row \<Rightarrow> Inr (get row column))"

text \<open>The records on which \<^verbatim>\<open>?.split\<close> cannot throw: the combined birth field is a
  string or is nullish. And the records whose export record is built: the document type is
  DKPTKA, whose fields split nothing, or the combined birth field cannot throw, or it is
  never reached, the fields before it in both chains being truthy.\<close>

definition splitSafe :: "ExtractedData \<Rightarrow> bool" where
  "splitSafe d =
     (case get d ''Place & Date of Birth'' of
        JStr _ \<Rightarrow> True | JUndefined \<Rightarrow> True | JNull \<Rightarrow> True | _ \<Rightarrow> False)"

definition recordBuilt :: "string \<Rightarrow> ExtractedData \<Rightarrow> bool" where
  "recordBuilt documentType d =
     (documentType = ''DKPTKA'' \<or> splitSafe d \<or>
      (truthy (get d ''Place of Birth'') \<and> truthy (get d ''Date of Birth'')))"

text \<open>\<^verbatim>\<open>xs.map(f)\<close> with a callback that may throw.\<close>

fun mapE :: "('a \<Rightarrow> error + 'b) \<Rightarrow> 'a list \<Rightarrow> error + 'b list" where
  "mapE f [] = Inr []"
| "mapE f (x # xs) =
     (case f x of
        Inl e \<Rightarrow> Inl e
      | Inr y \<Rightarrow> (case mapE f xs of Inl e \<Rightarrow> Inl e | Inr ys \<Rightarrow> Inr (y # ys)))"

definition buildExportRecords :: "string \<Rightarrow> ResultItem list \<Rightarrow> error + Row list" where
  "buildExportRecords documentType rs =
     mapE (\<lambda>(index, result). exportRecord documentType index result)
       (enumerate 0 (filter successful rs))"

record Download =
  download_name :: string
  mime :: string
  content :: string

definition csvLine :: "string list \<Rightarrow> Row \<Rightarrow> string" where
  "csvLine headers row =
     join '','' (map (\<lambda>header. [CHR 0x22] @ toString (jsOr (get row header) (JStr [])) @ [CHR 0x22])
                  headers)"

text \<open>\<^verbatim>\<open>Object.keys(excelData[0] || {})\<close>.\<close>

definition csvHeaders :: "Row list \<Rightarrow> string list" where
  "csvHeaders excelData = (case excelData of [] \<Rightarrow> [] | row # _ \<Rightarrow> map fst row)"

definition csvContent :: "Row list \<Rightarrow> string" where
  "csvContent excelData =
     (let headers = csvHeaders excelData
      in join [CHR 0x0A] (join '','' headers # map (csvLine headers) excelData))"

text \<open>\<open>downloadAsExcel\<close>: nothing without held items, else the file handed to the browser.
  \<open>today\<close> is \<^verbatim>\<open>new Date().toISOString().split("T")[0]\<close>.\<close>

definition downloadAsExcel ::
  "ApiResponse option \<Rightarrow> string \<Rightarrow> string \<Rightarrow> error + Download option" where
  "downloadAsExcel res documentType today =
    (case res of
       None \<Rightarrow> Inr None
     | Some r \<Rightarrow>
        (case results r of
           None \<Rightarrow> Inr None
         | Some rs \<Rightarrow>
            (case buildExportRecords documentType rs of
               Inl e \<Rightarrow> Inl e
             | Inr excelData \<Rightarrow>
                 Inr (Some \<lparr>download_name =
                              ''Hasil_Ekstraksi_'' @ documentType @ ''_'' @ today @ ''.csv'',
                            mime = ''text/csv'',
                            content = csvContent excelData\<rparr>))))"

section \<open>Submitting files: \<open>handleSubmit\<close>\<close>

datatype ApiStatus = Checking | Online | Offline

text \<open>What a \<^verbatim>\<open>try\<close> block can catch: a \<open>DOMException\<close> named \<open>AbortError\<close>, a
  \<open>TypeError\<close> with its message, another \<open>Error\<close> with its message, or a value that is no
  \<open>Error\<close>.\<close>

datatype Thrown = AbortError | TypeErr string | Err string | NonError

record Toast =
  title :: string
  description :: string
  destructive :: bool

text \<open>The request of \<open>handleSubmit\<close> throws, or answers with a status that is not ok and a
  body, or answers with the JSON of an \<open>ApiResponse\<close>.\<close>

datatype SubmitOutcome =
    SubmitThrows Thrown
  | SubmitRefused nat string
  | SubmitAnswers ApiResponse

definition convertedResults :: "string list \<Rightarrow> ExtractedData list \<Rightarrow> ResultItem list" where
  "convertedResults files extraction =
     map (\<lambda>(index, extractedData).
            \<lparr>filename =
               jsOr (jsOr (get extractedData ''Source_File'')
                          (case nth_opt files index of
                             None \<Rightarrow> JUndefined | Some name \<Rightarrow> JStr name))
                    (JStr (''File '' @ showInt (int index + 1))),
             status = Success,
             data = Some extractedData,
             error = None\<rparr>)
         (enumerate 0 extraction)"

text \<open>The value given to \<open>setResults\<close>: both branches on \<open>enableFileRename\<close> replace the
  items by the converted extraction data when the response has some, and the response is
  held as it came otherwise.\<close>

definition heldResults :: "bool \<Rightarrow> string list \<Rightarrow> ApiResponse \<Rightarrow> ApiResponse" where
  "heldResults enableFileRename files d =
    (if enableFileRename \<and> extraction_data d \<noteq> None then
       d\<lparr>results := Some (convertedResults files (case extraction_data d of Some e \<Rightarrow> e | None \<Rightarrow> []))\<rparr>
     else if \<not> enableFileRename \<and> extraction_data d \<noteq> None then
       d\<lparr>results := Some (convertedResults files (case extraction_data d of Some e \<Rightarrow> e | None \<Rightarrow> []))\<rparr>
     else d)"

definition submitErrorToast :: "Thrown \<Rightarrow> Toast" where
  "submitErrorToast thrown =
    (case thrown of
       TypeErr m \<Rightarrow>
         if includes_str m ''Failed to fetch'' then
           \<lparr>title = ''Connection Error'',
            description = ''Could not connect to the API server. Please check your internet connection or try again later.'',
            destructive = True\<rparr>
         else \<lparr>title = ''Error'', description = ''Failed to extract text: '' @ m,
               destructive = True\<rparr>
     | AbortError \<Rightarrow>
         \<lparr>title = ''Request Timeout'',
          description = ''The request took too long to complete. Please try again or use smaller files.'',
          destructive = True\<rparr>
     | Err m \<Rightarrow>
         \<lparr>title = ''Error'', description = ''Failed to extract text: '' @ m, destructive = True\<rparr>
     | NonError \<Rightarrow>
         \<lparr>title = ''Error'', description = ''Failed to extract text: Unknown error'',
          destructive = True\<rparr>)"

record SubmitResult =
  held :: "ApiResponse option"
  activeTab :: string
  shown :: Toast

text \<open>\<open>handleSubmit\<close> on the selected files, the API status, the rename switch and the
  outcome of the request, from the response held and the tab shown before. \<open>render\<close> is
  the string form that a template literal gives a counter of the response, taken as
  given.\<close>

definition handleSubmit ::
  "(int \<Rightarrow> string) \<Rightarrow> string list option \<Rightarrow> ApiStatus \<Rightarrow> bool \<Rightarrow> SubmitOutcome \<Rightarrow>
     ApiResponse option \<Rightarrow> string \<Rightarrow> SubmitResult" where
  "handleSubmit render files apiStatus enableFileRename outcome before tab =
    (if files = None \<or> files = Some [] then
       \<lparr>held = before, activeTab = tab,
        shown = \<lparr>title = ''Error'', description = ''Please select at least one PDF file'',
                 destructive = True\<rparr>\<rparr>
     else if apiStatus = Offline then
       \<lparr>held = before, activeTab = tab,
        shown = \<lparr>title = ''API Offline'',
                 description = ''The API server appears to be offline. Please try again later.'',
                 destructive = True\<rparr>\<rparr>
     else
       (case outcome of
          SubmitThrows thrown \<Rightarrow>
            \<lparr>held = before, activeTab = tab, shown = submitErrorToast thrown\<rparr>
        | SubmitRefused code errorText \<Rightarrow>
            \<lparr>held = before, activeTab = tab,
             shown = submitErrorToast
               (Err (''HTTP error! status: '' @ showInt (int code) @ '', message: '' @
                     (if errorText \<noteq> [] then errorText else ''No error details available'')))\<rparr>
        | SubmitAnswers d \<Rightarrow>
            \<lparr>held = Some (heldResults enableFileRename (case files of Some fs \<Rightarrow> fs | None \<Rightarrow> []) d),
             activeTab = ''results'',
             shown = \<lparr>title = ''Success'',
                      description = ''Processed '' @ render (processed_files d) @ '' out of '' @
                                    render (total_files d) @ '' files'',
                      destructive = False\<rparr>\<rparr>))"

text \<open>The batch invariant of the data model, on the counters of a response; a response
  without \<open>failed_files\<close> counts no failed file.\<close>

definition countersConsistent :: "ApiResponse \<Rightarrow> bool" where
  "countersConsistent r =
     (processed_files r + (case failed_files r of None \<Rightarrow> 0 | Some f \<Rightarrow> f) \<le> total_files r)"

section \<open>Downloading the artifacts: \<open>downloadRenamedZip\<close> and \<open>downloadExcelFromBackend\<close>\<close>

text \<open>
  The two functions are the same text with different constants, so one function over the
  artifact models both. Their parameter \<^verbatim>\<open>retryCount = 0\<close> is a number in the calls the
  functions make to themselves; the buttons pass the functions as \<open>onClick\<close> handlers, which
  calls them with the click event. \<^verbatim>\<open>event < 2\<close> compares \<open>NaN\<close> with 2 and is false, and
  \<^verbatim>\<open>event + 1\<close> is a string that is no number.
\<close>

datatype Artifact = Zip | Excel

datatype RetryCount = Count nat | ClickEvent | NotANumber

fun lessThan2 :: "RetryCount \<Rightarrow> bool" where
  "lessThan2 (Count n) = (n < 2)"
| "lessThan2 ClickEvent = False"
| "lessThan2 NotANumber = False"

fun plusOne :: "RetryCount \<Rightarrow> RetryCount" where
  "plusOne (Count n) = Count (n + 1)"
| "plusOne ClickEvent = NotANumber"
| "plusOne NotANumber = NotANumber"

record HttpResponse =
  http_status :: nat
  statusText :: string
  responseText :: string
  blob_size :: nat

definition ok :: "HttpResponse \<Rightarrow> bool" where
  "ok response = (200 \<le> http_status response \<and> http_status response \<le> 299)"

datatype FetchOutcome = Throws Thrown | Responds HttpResponse

datatype Effect = Fetch string nat | Sleep nat | Notify Toast | Save string nat

text \<open>The world of a download: the base URL, the outcome of the fetch number \<open>k\<close>, and the
  text \<^verbatim>\<open>(blob.size / 1024 / 1024).toFixed(2)\<close> (or the one in KB) of a size, a floating-point
  rendering that is taken as given.\<close>

record World =
  API_URL :: string
  outcomes :: "nat \<Rightarrow> FetchOutcome"
  sizeText :: "nat \<Rightarrow> string"

definition linkOf :: "Artifact \<Rightarrow> ApiResponse \<Rightarrow> string option" where
  "linkOf art r =
    (case download_links r of
       None \<Rightarrow> None
     | Some links \<Rightarrow> (case art of Zip \<Rightarrow> zip_link links | Excel \<Rightarrow> excel links))"

definition fileNameOf :: "Artifact \<Rightarrow> string \<Rightarrow> string" where
  "fileNameOf art path =
    (let popped = last (split CHR ''/'' path)
     in if popped \<noteq> [] then popped
        else (case art of Zip \<Rightarrow> ''renamed_files.zip'' | Excel \<Rightarrow> ''hasil_ekstraksi.xlsx''))"

definition fetchTimeout :: "Artifact \<Rightarrow> nat" where
  "fetchTimeout art = (case art of Zip \<Rightarrow> 60000 | Excel \<Rightarrow> 30000)"

definition errorMessageOf :: "Thrown \<Rightarrow> string" where
  "errorMessageOf thrown =
    (case thrown of
       AbortError \<Rightarrow> ''Download timed out. Please try again.''
     | TypeErr m \<Rightarrow>
         if includes_str m ''Failed to fetch'' then ''Network error. Please check your connection.''
         else m
     | Err m \<Rightarrow> m
     | NonError \<Rightarrow> ''Unknown error occurred'')"

text \<open>\<^verbatim>\<open>errorMessage.includes("404") || errorMessage.includes("Network")\<close>.\<close>

definition retryWorthy :: "string \<Rightarrow> bool" where
  "retryWorthy errorMessage =
     (includes_str errorMessage ''404'' \<or> includes_str errorMessage ''Network'')"

text \<open>The message of the \<open>Error\<close> thrown for a response that is not ok:
  \<^verbatim>\<open>`HTTP ${response.status}: ${errorText || response.statusText}`\<close>.\<close>

definition httpErrorMessage :: "HttpResponse \<Rightarrow> string" where
  "httpErrorMessage response =
     ''HTTP '' @ showInt (int (http_status response)) @ '': '' @
     (if responseText response \<noteq> [] then responseText response else statusText response)"

text \<open>The \<^verbatim>\<open>catch\<close> block: the effects of this call, and whether it calls the function
  again with \<^verbatim>\<open>retryCount + 1\<close>.\<close>

definition catchBlock :: "Artifact \<Rightarrow> RetryCount \<Rightarrow> Thrown \<Rightarrow> Effect list \<times> bool" where
  "catchBlock art retryCount thrown =
    (let errorMessage = errorMessageOf thrown
     in if lessThan2 retryCount \<and> retryWorthy errorMessage
        then
          ([Notify \<lparr>title = (case art of Zip \<Rightarrow> ''Download Failed''
                                       | Excel \<Rightarrow> ''Excel Download Failed''),
                    description = errorMessage @ '' Attempting retry...'',
                    destructive = True\<rparr>,
            Sleep 2000], True)
        else
          ([Notify \<lparr>title = (case art of Zip \<Rightarrow> ''Download Error''
                                       | Excel \<Rightarrow> ''Excel Download Error''),
                    description = (case art of Zip \<Rightarrow> ''Failed to download ZIP file: ''
                                             | Excel \<Rightarrow> ''Failed to download Excel file: '')
                                  @ errorMessage,
                    destructive = True\<rparr>], False))"

text \<open>The \<^verbatim>\<open>try\<close> block after the fetch has settled.\<close>

definition afterFetch ::
  "Artifact \<Rightarrow> (nat \<Rightarrow> string) \<Rightarrow> string \<Rightarrow> RetryCount \<Rightarrow> FetchOutcome \<Rightarrow> Effect list \<times> bool" where
  "afterFetch art render fileName retryCount outcome =
    (case outcome of
       Throws thrown \<Rightarrow> catchBlock art retryCount thrown
     | Responds response \<Rightarrow>
         if \<not> ok response then
           (if http_status response = 404 \<and> lessThan2 retryCount then ([Sleep 3000], True)
            else catchBlock art retryCount (Err (httpErrorMessage response)))
         else if blob_size response = 0 then
           catchBlock art retryCount
             (Err (case art of Zip \<Rightarrow> ''Downloaded file is empty''
                             | Excel \<Rightarrow> ''Downloaded Excel file is empty''))
         else
           ([Save fileName (blob_size response),
             Notify \<lparr>title = (case art of Zip \<Rightarrow> ''Download Complete''
                                        | Excel \<Rightarrow> ''Excel Download Complete''),
                     description =
                       (case art of
                          Zip \<Rightarrow> ''ZIP file downloaded successfully ('' @
                                 render (blob_size response) @ '' MB)''
                        | Excel \<Rightarrow> ''Excel file downloaded successfully ('' @
                                   render (blob_size response) @ '' KB)''),
                     destructive = False\<rparr>], False))"

lemma afterFetch_again: "snd (afterFetch art st fileName retryCount outcome) \<Longrightarrow> lessThan2 retryCount"
  by (auto simp: afterFetch_def catchBlock_def Let_def split: FetchOutcome.splits if_splits)

text \<open>A call of the function with the held response: \<open>k\<close> counts the fetches made before
  it.\<close>

function download ::
  "Artifact \<Rightarrow> World \<Rightarrow> ApiResponse option \<Rightarrow> nat \<Rightarrow> RetryCount \<Rightarrow> Effect list" where
  "download art world res k retryCount =
    (case res of
       None \<Rightarrow>
         [Notify \<lparr>title = ''Error'',
                  description = ''No results available. Please process files first.'',
                  destructive = True\<rparr>]
     | Some r \<Rightarrow>
        (case linkOf art r of
           None \<Rightarrow>
             [Notify \<lparr>title = ''Error'',
                      description =
                        (case art of
                           Zip \<Rightarrow> ''No ZIP download link available. Please try processing the files again.''
                         | Excel \<Rightarrow> ''No Excel download link available. Please try processing the files again.''),
                      destructive = True\<rparr>]
         | Some path \<Rightarrow>
             if path = [] then
               [Notify \<lparr>title = ''Error'',
                        description =
                          (case art of
                             Zip \<Rightarrow> ''No ZIP download link available. Please try processing the files again.''
                           | Excel \<Rightarrow> ''No Excel download link available. Please try processing the files again.''),
                        destructive = True\<rparr>]
             else
               Fetch (API_URL world @ path) (fetchTimeout art) #
               fst (afterFetch art (sizeText world) (fileNameOf art path) retryCount (outcomes world k)) @
               (if snd (afterFetch art (sizeText world) (fileNameOf art path) retryCount (outcomes world k))
                then download art world res (Suc k) (plusOne retryCount)
                else [])))"
  by pat_completeness auto
termination
proof (relation "measure (\<lambda>(art, world, res, k, retryCount).
                   case retryCount of Count n \<Rightarrow> 3 - n | _ \<Rightarrow> 0)")
  show "wf (measure (\<lambda>(art, world, res, k, retryCount).
                   case retryCount of Count n \<Rightarrow> 3 - n | _ \<Rightarrow> 0))"
    by simp
next
  fix art :: Artifact and world :: World and res :: "ApiResponse option" and k :: nat
    and retryCount :: RetryCount and r :: ApiResponse and path :: string
  assume "snd (afterFetch art (sizeText world) (fileNameOf art path) retryCount (outcomes world k))"
  then have "lessThan2 retryCount"
    by (rule afterFetch_again)
  then show "((art, world, res, Suc k, plusOne retryCount), (art, world, res, k, retryCount))
        \<in> measure (\<lambda>(art, world, res, k, retryCount).
                   case retryCount of Count n \<Rightarrow> 3 - n | _ \<Rightarrow> 0)"
    by (cases retryCount) auto
qed

declare download.simps [simp del]

definition downloadRenamedZip :: "World \<Rightarrow> ApiResponse option \<Rightarrow> RetryCount \<Rightarrow> Effect list" where
  "downloadRenamedZip world res retryCount = download Zip world res 0 retryCount"

definition downloadExcelFromBackend :: "World \<Rightarrow> ApiResponse option \<Rightarrow> RetryCount \<Rightarrow> Effect list" where
  "downloadExcelFromBackend world res retryCount = download Excel world res 0 retryCount"

text \<open>The number of requests in a trace; the path a call downloads from, if the held
  response has one; the failures after which \<open>afterFetch\<close> calls again when the count allows
  it; and the traces that end for the user: a file was saved, or the last effect is the toast
  of a final error.\<close>

definition fetches :: "Effect list \<Rightarrow> nat" where
  "fetches es = length (filter (\<lambda>e. case e of Fetch _ _ \<Rightarrow> True | _ \<Rightarrow> False) es)"

definition linked :: "Artifact \<Rightarrow> ApiResponse option \<Rightarrow> string option" where
  "linked art res =
     (case res of
        None \<Rightarrow> None
      | Some r \<Rightarrow> (case linkOf art r of
                    None \<Rightarrow> None
                  | Some path \<Rightarrow> if path = [] then None else Some path))"

definition retriedOutcome :: "FetchOutcome \<Rightarrow> bool" where
  "retriedOutcome outcome =
    (case outcome of
       Throws thrown \<Rightarrow> retryWorthy (errorMessageOf thrown)
     | Responds response \<Rightarrow>
         \<not> ok response \<and> (http_status response = 404 \<or> retryWorthy (httpErrorMessage response)))"

definition surfaced :: "Effect list \<Rightarrow> bool" where
  "surfaced es =
     ((\<exists>name size. Save name size \<in> set es) \<or>
      (\<exists>t. es \<noteq> [] \<and> last es = Notify t \<and> destructive t \<and>
           title t \<in> {''Error'', ''Download Error'', ''Excel Download Error''}))"

definition budget :: "RetryCount \<Rightarrow> nat" where
  "budget retryCount = (case retryCount of Count n \<Rightarrow> if n < 2 then 3 - n else 1 | _ \<Rightarrow> 1)"

section \<open>Sample data\<close>

definition itemOf :: "ExtractedData \<Rightarrow> ResultItem" where
  "itemOf d = \<lparr>filename = JStr ''a.pdf'', status = Success, data = Some d, error = None\<rparr>"

definition failedItem :: ResultItem where
  "failedItem =
     \<lparr>filename = JStr ''b.pdf'', status = Error, data = None, error = Some ''unreadable''\<rparr>"

definition noDataItem :: ResultItem where
  "noDataItem = \<lparr>filename = JStr ''c.pdf'', status = Success, data = None, error = None\<rparr>"

definition batchOf :: "ResultItem list \<Rightarrow> ApiResponse" where
  "batchOf items =
     \<lparr>success = True, timestamp = ''2024-01-01T00:00:00'', total_files = int (length items),
      processed_files = int (length (filter (\<lambda>r. status r = Success) items)),
      failed_files = Some (int (length (filter (\<lambda>r. status r = Error) items))),
      results = Some items, extraction_data = None, renamed_files = None,
      download_links = None, file_info = None\<rparr>"

definition passportRecord :: ExtractedData where
  "passportRecord = [(''Passport No'', JStr ''A123''), (''Nomor Paspor'', JStr ''B456'')]"


definition birthRecord :: ExtractedData where
  "birthRecord = [(''Place & Date of Birth'', JStr ''Jakarta, 1990-01-01'')]"

definition numericBirthRecord :: ExtractedData where
  "numericBirthRecord = [(''Place & Date of Birth'', JNum False ''1990'')]"

definition arrayBirthRecord :: ExtractedData where
  "arrayBirthRecord = [(''Place & Date of Birth'', JArr [JStr ''Jakarta'', JStr ''1990-01-01''])]"

definition shieldedRecord :: ExtractedData where
  "shieldedRecord =
     [(''Place of Birth'', JStr ''Jakarta''), (''Date of Birth'', JStr ''1990-01-01''),
      (''Place & Date of Birth'', JNum False ''1990'')]"

definition jakartaRecord :: ExtractedData where
  "jakartaRecord = [(''Name'', JStr ''BUDI''), (''Place of Birth'', JStr ''JAKARTA Selatan'')]"

definition bandungRecord :: ExtractedData where
  "bandungRecord = [(''Name'', JStr ''SITI''), (''Place of Birth'', JStr ''Bandung'')]"

definition inconsistentResponse :: ApiResponse where
  "inconsistentResponse =
     \<lparr>success = True, timestamp = ''2024-01-01T00:00:00'', total_files = 1,
      processed_files = 2, failed_files = Some 1, results = Some [],
      extraction_data = None, renamed_files = None, download_links = None, file_info = None\<rparr>"

definition threeFilesResponse :: ApiResponse where
  "threeFilesResponse =
     \<lparr>success = True, timestamp = ''2024-01-01T00:00:00'', total_files = 3,
      processed_files = 2, failed_files = Some 1, results = None,
      extraction_data = Some [passportRecord, birthRecord], renamed_files = None,
      download_links = None, file_info = None\<rparr>"

definition linkedBatch :: ApiResponse where
  "linkedBatch =
     \<lparr>success = True, timestamp = ''2024-01-01T00:00:00'', total_files = 1,
      processed_files = 1, failed_files = None, results = Some [],
      extraction_data = None, renamed_files = None,
      download_links =
        Some \<lparr>excel = Some ''/download/hasil.xlsx'', zip_link = Some ''/download/renamed.zip''\<rparr>,
      file_info = None\<rparr>"



definition notFoundResponse :: HttpResponse where
  "notFoundResponse =
     \<lparr>http_status = 404, statusText = ''Not Found'', responseText = [], blob_size = 0\<rparr>"


definition alwaysNotFound :: "nat \<Rightarrow> FetchOutcome" where
  "alwaysNotFound k = Responds notFoundResponse"

definition worldOf :: "(nat \<Rightarrow> FetchOutcome) \<Rightarrow> World" where
  "worldOf f = \<lparr>API_URL = ''https://api.example'', outcomes = f, sizeText = (\<lambda>n. ''0.00'')\<rparr>"

section \<open>Properties\<close>

subsection \<open>The columns of the table\<close>

lemma find_successful: "(find successful rs = None) = (\<not> (\<exists>x \<in> set rs. successful x))"
  by (auto simp: find_None_iff)



text \<open>
  Claim C10. The document types ITAS and ITK share one column list: whatever response is
  held, \<open>getTableColumns\<close> gives the same columns for both, and a row is projected to the
  same cells under both.
\<close>

theorem itas_itk_same_projection:
  "getTableColumns res ''ITAS'' = getTableColumns res ''ITK'' \<and>
   projectRow res ''ITAS'' row = projectRow res ''ITK'' row"
proof -
  have "columnsFor ''ITAS'' = columnsFor ''ITK''"
    by (simp add: columnsFor_def)
  then have "getTableColumns res ''ITAS'' = getTableColumns res ''ITK''"
    by (simp add: getTableColumns_def split: option.splits)
  then show ?thesis
    by (simp add: projectRow_def)
qed

text \<open>
  Claim C3, as stated, fails: \<open>getTableColumns\<close> is guarded by the held response and
  returns no column at all while the response holds no successful item with data. Here the
  only item of the batch failed, and the document type is SKTT.
\<close>

theorem getTableColumns_empty_counterexample:
  "getTableColumns (Some (batchOf [failedItem])) ''SKTT'' = []"
  by (simp add: getTableColumns_def batchOf_def failedItem_def successful_def)

text \<open>
  Claim C3, amended. When the held response has an item with status success and data,
  \<open>getTableColumns\<close> returns, for every document-type tag, the column list of that tag: a
  function of the tag alone, never empty, and for a tag that is none of the six known ones
  the default list Name, Place of Birth, Date of Birth, Passport No, Passport Expiry,
  Date Issue, Document Type. In every other case (no response is held, the response has
  no items, or none of its items has status success and data) it returns the empty list,
  whatever the tag.
\<close>

theorem getTableColumns_guarded:
  "getTableColumns res documentType =
     (if hasSuccessful res then columnsFor documentType else []) \<and>
   columnsFor documentType \<noteq> [] \<and>
   (documentType \<notin> {''SKTT'', ''EVLN'', ''ITAS'', ''ITK'', ''Notifikasi'', ''DKPTKA''} \<longrightarrow>
      columnsFor documentType =
        [''Name'', ''Place of Birth'', ''Date of Birth'', ''Passport No'',
         ''Passport Expiry'', ''Date Issue'', ''Document Type''])"
proof -
  have "getTableColumns res documentType =
          (if hasSuccessful res then columnsFor documentType else [])"
  proof (cases res)
    case None
    then show ?thesis
      by (simp add: getTableColumns_def hasSuccessful_def)
  next
    case (Some r)
    show ?thesis
    proof (cases "results r")
      case None
      with Some show ?thesis
        by (simp add: getTableColumns_def hasSuccessful_def)
    next
      case (Some rs)
      show ?thesis
      proof (cases "find successful rs")
        case None
        then have "\<not> list_ex successful rs"
          by (simp add: find_successful list_ex_iff)
        with None \<open>res = Some r\<close> Some show ?thesis
          by (simp add: getTableColumns_def hasSuccessful_def)
      next
        case found: (Some x)
        then have "list_ex successful rs" and "rs \<noteq> []"
          using find_successful [of rs] by (auto simp: list_ex_iff)
        with found \<open>res = Some r\<close> Some show ?thesis
          by (simp add: getTableColumns_def hasSuccessful_def)
      qed
    qed
  qed
  moreover have "columnsFor documentType \<noteq> []"
    by (simp add: columnsFor_def)
  moreover have
    "documentType \<notin> {''SKTT'', ''EVLN'', ''ITAS'', ''ITK'', ''Notifikasi'', ''DKPTKA''} \<longrightarrow>
       columnsFor documentType =
         [''Name'', ''Place of Birth'', ''Date of Birth'', ''Passport No'',
          ''Passport Expiry'', ''Date Issue'', ''Document Type'']"
    by (simp add: columnsFor_def)
  ultimately show ?thesis by simp
qed

theorem getTableColumns_guarded_witness:
  "hasSuccessful (Some (batchOf [failedItem, itemOf passportRecord])) \<and>
   getTableColumns (Some (batchOf [failedItem, itemOf passportRecord])) ''KITAS'' =
     [''Name'', ''Place of Birth'', ''Date of Birth'', ''Passport No'',
      ''Passport Expiry'', ''Date Issue'', ''Document Type''] \<and>
   \<not> hasSuccessful None \<and> getTableColumns None ''EVLN'' = [] \<and>
   \<not> hasSuccessful (Some ((batchOf []) \<lparr>results := None\<rparr>)) \<and>
   getTableColumns (Some ((batchOf []) \<lparr>results := None\<rparr>)) ''EVLN'' = [] \<and>
   \<not> hasSuccessful (Some (batchOf [])) \<and> getTableColumns (Some (batchOf [])) ''EVLN'' = [] \<and>
   \<not> hasSuccessful (Some (batchOf [failedItem, noDataItem])) \<and>
   getTableColumns (Some (batchOf [failedItem, noDataItem])) ''EVLN'' = []"
proof -
  have a: "hasSuccessful (Some (batchOf [failedItem, itemOf passportRecord]))"
    by (simp add: hasSuccessful_def batchOf_def successful_def itemOf_def)
  have b: "\<not> hasSuccessful None" "\<not> hasSuccessful (Some ((batchOf []) \<lparr>results := None\<rparr>))"
    "\<not> hasSuccessful (Some (batchOf []))" "\<not> hasSuccessful (Some (batchOf [failedItem, noDataItem]))"
    by (simp_all add: hasSuccessful_def batchOf_def successful_def failedItem_def noDataItem_def)
  have k: "''KITAS'' \<notin> {''SKTT'', ''EVLN'', ''ITAS'', ''ITK'', ''Notifikasi'', ''DKPTKA''}"
    by simp
  from getTableColumns_guarded [of "Some (batchOf [failedItem, itemOf passportRecord])" "''KITAS''"]
       getTableColumns_guarded [of None "''EVLN''"]
       getTableColumns_guarded [of "Some ((batchOf []) \<lparr>results := None\<rparr>)" "''EVLN''"]
       getTableColumns_guarded [of "Some (batchOf [])" "''EVLN''"]
       getTableColumns_guarded [of "Some (batchOf [failedItem, noDataItem])" "''EVLN''"]
       a b k
  show ?thesis by simp
qed

subsection \<open>The search filter\<close>

lemma includes_str_sublist: "includes_str s sub = sublist sub s"
  by (induction s) (simp_all add: sublist_Cons_right)

lemma includes_lower:
  "includes_str (toLowerCase text) (toLowerCase query) = containsIgnoringCase text query"
proof
  assume "includes_str (toLowerCase text) (toLowerCase query)"
  then obtain ps ss where h: "map toLowerChar text = ps @ map toLowerChar query @ ss"
    by (auto simp: includes_str_sublist sublist_def toLowerCase_def)
  from h [unfolded map_eq_append_conv] obtain before rest where t: "text = before @ rest"
    and "map toLowerChar query @ ss = map toLowerChar rest"
    by blast
  then have "map toLowerChar rest = map toLowerChar query @ ss"
    by simp
  from this [unfolded map_eq_append_conv] obtain part after where "rest = part @ after"
    and "map toLowerChar part = map toLowerChar query"
    by auto
  with t show "containsIgnoringCase text query"
    by (auto simp: containsIgnoringCase_def toLowerCase_def)
next
  assume "containsIgnoringCase text query"
  then obtain before part after where "text = before @ part @ after"
    and "toLowerCase part = toLowerCase query"
    by (auto simp: containsIgnoringCase_def)
  then have "toLowerCase text = toLowerCase before @ toLowerCase query @ toLowerCase after"
    by (simp add: toLowerCase_def)
  then show "includes_str (toLowerCase text) (toLowerCase query)"
    by (simp add: includes_str_sublist)
qed

lemma matchesQuery_spec:
  "matchesQuery (c # q) row = (\<exists>val \<in> snd ` set row. containsIgnoringCase (toString val) (c # q))"
  by (auto simp: matchesQuery_def list_ex_iff includes_lower)

lemma set_insertKey: "set (insertKey k v obj) = insert (k, v) (set obj)"
  by (induction obj) (auto split: if_splits)

lemma set_assign_new: "k \<notin> fst ` set obj \<Longrightarrow> set (assign k v obj) = insert (k, v) (set obj)"
  by (simp add: assign_def set_insertKey)

lemma set_fold_assign:
  "distinct (map fst d) \<Longrightarrow> fst ` set d \<inter> fst ` set obj = {} \<Longrightarrow>
   set (fold (\<lambda>(k, v). assign k v) d obj) = set obj \<union> set d"
proof (induction d arbitrary: obj)
  case Nil
  then show ?case by simp
next
  case (Cons p d)
  obtain a b where p: "p = (a, b)" by (cases p)
  from Cons.prems p have new: "a \<notin> fst ` set obj" and a: "a \<notin> fst ` set d"
    and dd: "distinct (map fst d)" and apart: "fst ` set d \<inter> fst ` set obj = {}"
    by auto
  from new have s: "set (assign a b obj) = insert (a, b) (set obj)"
    by (rule set_assign_new)
  with a apart have "fst ` set d \<inter> fst ` set (assign a b obj) = {}"
    by auto
  from Cons.IH [OF dd this] s p show ?case
    by simp
qed

lemma tableRow_values:
  assumes "data item = Some d" and "distinct (map fst d)"
    and "''index'' \<notin> fst ` set d" and "''filename'' \<notin> fst ` set d"
  shows "snd ` set (tableRow index item) = {numberOfNat index, filename item} \<union> snd ` set d"
proof -
  from assms(3,4)
  have "fst ` set d \<inter> fst ` set [(''index'', numberOfNat index), (''filename'', filename item)] = {}"
    by auto
  from set_fold_assign [OF assms(2) this] assms(1) show ?thesis
    by (simp add: tableRow_def spread_def image_Un)
qed

lemma bandung_row:
  "tableRow 1 (itemOf bandungRecord) =
     [(''index'', JNum False ''1''), (''filename'', JStr ''a.pdf''), (''Name'', JStr ''SITI''),
      (''Place of Birth'', JStr ''Bandung'')]"
  by code_simp

lemma search_one:
  "filterBySearch [tableRow 0 (itemOf jakartaRecord), tableRow 1 (itemOf bandungRecord)] ''1'' =
     [tableRow 1 (itemOf bandungRecord)]"
  by code_simp

lemma sample_rows:
  "getTableData (Some (batchOf [itemOf jakartaRecord, itemOf bandungRecord])) =
     [tableRow 0 (itemOf jakartaRecord), tableRow 1 (itemOf bandungRecord)]"
  by (simp add: getTableData_def batchOf_def successful_def itemOf_def enumerate_simps)

text \<open>
  Claim C5, as stated, fails: the filter asks every value of the row object, and the row
  object holds the position of the item, counted from 0, under the key \<open>index\<close>, besides
  the filename and the fields of the record. Here the query \<open>1\<close> occurs in no field and in
  no filename, and the second row is kept, through its index alone.
\<close>

theorem search_matches_index_counterexample:
  "filterBySearch (getTableData (Some (batchOf [itemOf jakartaRecord, itemOf bandungRecord]))) ''1'' =
     [[(''index'', JNum False ''1''), (''filename'', JStr ''a.pdf''), (''Name'', JStr ''SITI''),
       (''Place of Birth'', JStr ''Bandung'')]]"
proof -
  have "filterBySearch (getTableData (Some (batchOf [itemOf jakartaRecord, itemOf bandungRecord])))
          ''1'' = [tableRow 1 (itemOf bandungRecord)]"
    by (simp only: sample_rows search_one)
  then show ?thesis
    by (simp only: bandung_row)
qed

text \<open>
  Claim C5, amended. With the empty query \<open>filterBySearch\<close> returns the rows as they are.
  With a query that is not empty it returns the rows, in their order, one of whose values
  has a string form that contains the query up to the case of the letters; the result is
  always a subsequence of the rows. The rows of the table are the rows of the successful
  items in their order, and the values of the row of an item (whose record has distinct
  keys, none of them \<open>index\<close> or \<open>filename\<close>) are the position of the item counted from 0,
  its filename, and the values of all fields of its record, whether a column shows them or
  not.
\<close>

theorem filterBySearch_row_values:
  "filterBySearch rows [] = rows \<and>
   filterBySearch rows (c # q) =
     filter (\<lambda>row. \<exists>val \<in> snd ` set row. containsIgnoringCase (toString val) (c # q)) rows \<and>
   subseq (filterBySearch rows query) rows \<and>
   (results r = Some rs \<longrightarrow>
      getTableData (Some r) =
        map (\<lambda>(index, item). tableRow index item) (enumerate 0 (filter successful rs))) \<and>
   (data item = Some d \<and> distinct (map fst d) \<and>
    ''index'' \<notin> fst ` set d \<and> ''filename'' \<notin> fst ` set d \<longrightarrow>
      snd ` set (tableRow index item) = {numberOfNat index, filename item} \<union> snd ` set d)"
proof -
  have "filterBySearch rows [] = rows"
    by (simp add: filterBySearch_def matchesQuery_def)
  moreover have "filterBySearch rows (c # q) =
     filter (\<lambda>row. \<exists>val \<in> snd ` set row. containsIgnoringCase (toString val) (c # q)) rows"
    unfolding filterBySearch_def by (rule filter_cong) (simp_all add: matchesQuery_spec)
  moreover have "subseq (filterBySearch rows query) rows"
    by (simp add: filterBySearch_def)
  moreover have "getTableData (Some r) =
        map (\<lambda>(index, item). tableRow index item) (enumerate 0 (filter successful rs))"
    if "results r = Some rs"
    using that by (simp add: getTableData_def)
  moreover have
    "snd ` set (tableRow index item) = {numberOfNat index, filename item} \<union> snd ` set d"
    if "data item = Some d \<and> distinct (map fst d) \<and>
        ''index'' \<notin> fst ` set d \<and> ''filename'' \<notin> fst ` set d"
    using that by (simp add: tableRow_values)
  ultimately show ?thesis by blast
qed

lemma search_jakarta:
  "filterBySearch [tableRow 0 (itemOf jakartaRecord), tableRow 1 (itemOf bandungRecord)] ''jakarta'' =
     [tableRow 0 (itemOf jakartaRecord)]"
  by code_simp

theorem filterBySearch_row_values_witness:
  "results (batchOf [itemOf jakartaRecord, itemOf bandungRecord]) =
     Some [itemOf jakartaRecord, itemOf bandungRecord] \<and>
   data (itemOf jakartaRecord) = Some jakartaRecord \<and> distinct (map fst jakartaRecord) \<and>
   ''index'' \<notin> fst ` set jakartaRecord \<and> ''filename'' \<notin> fst ` set jakartaRecord \<and>
   snd ` set (tableRow 0 (itemOf jakartaRecord)) =
     {numberOfNat 0, JStr ''a.pdf'', JStr ''BUDI'', JStr ''JAKARTA Selatan''} \<and>
   filter (\<lambda>row. \<exists>val \<in> snd ` set row. containsIgnoringCase (toString val) ''jakarta'')
     (getTableData (Some (batchOf [itemOf jakartaRecord, itemOf bandungRecord]))) =
     [tableRow 0 (itemOf jakartaRecord)]"
proof -
  have a: "results (batchOf [itemOf jakartaRecord, itemOf bandungRecord]) =
             Some [itemOf jakartaRecord, itemOf bandungRecord]"
    by (simp add: batchOf_def)
  have b: "data (itemOf jakartaRecord) = Some jakartaRecord" "distinct (map fst jakartaRecord)"
    "''index'' \<notin> fst ` set jakartaRecord" "''filename'' \<notin> fst ` set jakartaRecord"
    by (simp_all add: itemOf_def jakartaRecord_def)
  have f: "filename (itemOf jakartaRecord) = JStr ''a.pdf''"
    by (simp add: itemOf_def)
  have v: "snd ` set jakartaRecord = {JStr ''BUDI'', JStr ''JAKARTA Selatan''}"
    by (simp add: jakartaRecord_def)
  from filterBySearch_row_values
         [of "[tableRow 0 (itemOf jakartaRecord), tableRow 1 (itemOf bandungRecord)]"
             "CHR ''j''" "''akarta''" _ _ _ "itemOf jakartaRecord" jakartaRecord 0]
       search_jakarta sample_rows a b f v
  show ?thesis by (simp add: insert_commute)
qed

subsection \<open>Rows of the table and records of the export\<close>

lemma get_absent: "k \<notin> fst ` set d \<Longrightarrow> get d k = JUndefined"
  by (simp add: get_def map_of_eq_None_iff [THEN iffD2])











lemma resolve_total:
  "(\<forall>src \<in> set srcs. \<exists>v. readSource d src = Inr v) \<Longrightarrow> \<exists>v. resolve d srcs = Inr v"
  by (induction srcs) (auto simp: orElse_def)

lemma evalFields_total:
  "(\<forall>(column, srcs) \<in> set fs. \<exists>v. resolve d srcs = Inr v) \<Longrightarrow> \<exists>row. evalFields d fs = Inr row"
proof (induction fs)
  case Nil
  then show ?case by simp
next
  case (Cons f fs)
  obtain column srcs where f: "f = (column, srcs)" by (cases f)
  with Cons obtain v row where "resolve d srcs = Inr v" and "evalFields d fs = Inr row"
    by auto
  with f show ?case by simp
qed

lemma evalFields_lookup:
  assumes "evalFields d fs = Inr row" and "distinct (map fst fs)" and "(c, srcs) \<in> set fs"
  shows "\<exists>v. resolve d srcs = Inr v \<and> map_of row c = Some v"
  using assms
proof (induction fs arbitrary: row)
  case Nil
  then show ?case by simp
next
  case (Cons f fs)
  obtain c' srcs' where f: "f = (c', srcs')" by (cases f)
  from Cons.prems(1) f obtain v' row' where v': "resolve d srcs' = Inr v'"
    and row': "evalFields d fs = Inr row'" and row: "row = (c', v') # row'"
    by (auto split: sum.splits)
  show ?case
  proof (cases "(c, srcs) = (c', srcs')")
    case True
    with v' row show ?thesis by simp
  next
    case False
    with Cons.prems(3) f have mem: "(c, srcs) \<in> set fs" by auto
    with Cons.prems(2) f have "c \<noteq> c'" by force
    moreover from Cons.IH [OF row' _ mem] Cons.prems(2)
    obtain v where "resolve d srcs = Inr v" and "map_of row' c = Some v" by auto
    ultimately show ?thesis using row by simp
  qed
qed

lemma splitFirst_safe: "splitSafe d \<Longrightarrow> \<exists>v. splitFirst (get d ''Place & Date of Birth'') = Inr v"
  by (auto simp: splitSafe_def splitFirst_def split: jsval.splits option.splits)

lemma splitSecondTrim_safe:
  "splitSafe d \<Longrightarrow> \<exists>v. splitSecondTrim (get d ''Place & Date of Birth'') = Inr v"
  by (auto simp: splitSafe_def splitSecondTrim_def split: jsval.splits option.splits)

lemma dkptka_reads:
  "\<forall>(column, srcs) \<in> set dkptkaFields. \<forall>src \<in> set srcs. \<exists>v. readSource d src = Inr v"
  by (simp add: dkptkaFields_def)

lemma other_reads:
  "splitSafe d \<Longrightarrow>
   \<forall>(column, srcs) \<in> set otherFields. \<forall>src \<in> set srcs. \<exists>v. readSource d src = Inr v"
  using splitFirst_safe [of d] splitSecondTrim_safe [of d]
  by (simp add: otherFields_def)

lemma exportFields_distinct: "distinct (map fst (exportFields t))"
  by (simp add: exportFields_def dkptkaFields_def otherFields_def)

lemma exportFields_not_base:
  "(c, srcs) \<in> set (exportFields t) \<Longrightarrow> c \<noteq> ''No'' \<and> c \<noteq> ''Filename'' \<and> c \<noteq> ''Document Type''"
  by (auto simp: exportFields_def dkptkaFields_def otherFields_def split: if_splits)

lemma chains_start_with_key:
  "(c, srcs) \<in> set (exportFields t) \<Longrightarrow> \<exists>primary fallbacks. srcs = Key primary # fallbacks"
  by (auto simp: exportFields_def dkptkaFields_def otherFields_def split: if_splits)

lemma exportRecord_total:
  assumes "documentType = ''DKPTKA'' \<or> splitSafe (dataOf result)"
  shows "\<exists>row. exportRecord documentType index result = Inr row"
proof -
  have "\<forall>(column, srcs) \<in> set (exportFields documentType).
          \<forall>src \<in> set srcs. \<exists>v. readSource (dataOf result) src = Inr v"
    using assms dkptka_reads [of "dataOf result"] other_reads [of "dataOf result"]
    by (auto simp: exportFields_def)
  then have "\<forall>(column, srcs) \<in> set (exportFields documentType).
          \<exists>v. resolve (dataOf result) srcs = Inr v"
    using resolve_total by fastforce
  then obtain row where "evalFields (dataOf result) (exportFields documentType) = Inr row"
    using evalFields_total by blast
  then show ?thesis
    by (simp add: exportRecord_def)
qed

lemma exportRecord_column:
  assumes "exportRecord t i result = Inr row" and "(c, srcs) \<in> set (exportFields t)"
  shows "resolve (dataOf result) srcs = Inr (get row c)"
proof -
  from assms(1) obtain resolved
    where e: "evalFields (dataOf result) (exportFields t) = Inr resolved"
      and row: "row = baseData t i result @ resolved"
    by (auto simp: exportRecord_def split: sum.splits)
  from evalFields_lookup [OF e exportFields_distinct assms(2)]
  obtain v where v: "resolve (dataOf result) srcs = Inr v" and m: "map_of resolved c = Some v"
    by auto
  from exportFields_not_base [OF assms(2)] have "map_of (baseData t i result) c = None"
    by (simp add: baseData_def)
  with m row have "get row c = v"
    by (simp add: get_def map_add_def)
  with v show ?thesis by simp
qed

lemma exportedValue_column:
  assumes "t = ''DKPTKA'' \<or> splitSafe (dataOf result)" and "(c, srcs) \<in> set (exportFields t)"
  shows "exportedValue t i result c = resolve (dataOf result) srcs"
proof -
  from exportRecord_total [OF assms(1)] obtain row where r: "exportRecord t i result = Inr row"
    by blast
  from exportRecord_column [OF r assms(2)] r show ?thesis
    by (simp add: exportedValue_def)
qed

lemma evalFields_throws:
  "(c, srcs) \<in> set fs \<Longrightarrow> resolve d srcs = Inl e \<Longrightarrow> \<exists>e'. evalFields d fs = Inl e'"
proof (induction fs)
  case Nil
  then show ?case by simp
next
  case (Cons f fs)
  obtain c' srcs' where f: "f = (c', srcs')" by (cases f)
  show ?case
  proof (cases "resolve d srcs'")
    case (Inl e')
    with f show ?thesis by simp
  next
    case (Inr v)
    with Cons.prems f have "(c, srcs) \<in> set fs" by auto
    from Cons.IH [OF this Cons.prems(2)] obtain e' where "evalFields d fs = Inl e'"
      by blast
    with Inr f show ?thesis by simp
  qed
qed

lemma split_unsafe:
  assumes "\<not> splitSafe d"
  shows "\<exists>e. splitFirst (get d ''Place & Date of Birth'') = Inl e"
    and "\<exists>e. splitSecondTrim (get d ''Place & Date of Birth'') = Inl e"
  using assms
  by (cases "get d ''Place & Date of Birth''";
      simp add: splitSafe_def splitFirst_def splitSecondTrim_def)+

lemma truthy_reads:
  "truthy (get d ''Place of Birth'') \<Longrightarrow> truthy (get d ''Date of Birth'') \<Longrightarrow>
   \<forall>(column, srcs) \<in> set otherFields. \<exists>v. resolve d srcs = Inr v"
  by (simp add: otherFields_def orElse_def)

text \<open>An export record is built exactly for the records of \<open>recordBuilt\<close>; for the others
  the object literal throws.\<close>

lemma exportRecord_built:
  "(\<exists>row. exportRecord t i result = Inr row) = recordBuilt t (dataOf result)"
proof
  assume "recordBuilt t (dataOf result)"
  then consider "t = ''DKPTKA'' \<or> splitSafe (dataOf result)"
    | "t \<noteq> ''DKPTKA''" "truthy (get (dataOf result) ''Place of Birth'')"
      "truthy (get (dataOf result) ''Date of Birth'')"
    by (auto simp: recordBuilt_def)
  then show "\<exists>row. exportRecord t i result = Inr row"
  proof cases
    case 1
    then show ?thesis by (rule exportRecord_total)
  next
    case 2
    from truthy_reads [OF 2(2,3)] obtain row
      where "evalFields (dataOf result) otherFields = Inr row"
      using evalFields_total by blast
    with 2(1) show ?thesis
      by (simp add: exportRecord_def exportFields_def)
  qed
next
  assume built: "\<exists>row. exportRecord t i result = Inr row"
  show "recordBuilt t (dataOf result)"
  proof (rule ccontr)
    let ?d = "dataOf result"
    assume "\<not> recordBuilt t ?d"
    then have t: "t \<noteq> ''DKPTKA''" and unsafe: "\<not> splitSafe ?d"
      and falsy: "\<not> truthy (get ?d ''Place of Birth'') \<or> \<not> truthy (get ?d ''Date of Birth'')"
      by (auto simp: recordBuilt_def)
    from split_unsafe [OF unsafe] obtain e1 e2
      where e1: "splitFirst (get ?d ''Place & Date of Birth'') = Inl e1"
        and e2: "splitSecondTrim (get ?d ''Place & Date of Birth'') = Inl e2"
      by blast
    from falsy have "\<exists>c srcs e. (c, srcs) \<in> set otherFields \<and> resolve ?d srcs = Inl e"
    proof
      assume "\<not> truthy (get ?d ''Place of Birth'')"
      with e1
      have "resolve ?d [Key ''Place of Birth'', SplitFirst ''Place & Date of Birth''] = Inl e1"
        by (simp add: orElse_def)
      moreover have "(''Place of Birth'', [Key ''Place of Birth'', SplitFirst ''Place & Date of Birth''])
                       \<in> set otherFields"
        by (simp add: otherFields_def)
      ultimately show ?thesis by blast
    next
      assume "\<not> truthy (get ?d ''Date of Birth'')"
      with e2
      have "resolve ?d [Key ''Date of Birth'', SplitSecondTrim ''Place & Date of Birth'',
                        Key ''Tempat/Tanggal Lahir''] = Inl e2"
        by (simp add: orElse_def)
      moreover have "(''Date of Birth'', [Key ''Date of Birth'',
                        SplitSecondTrim ''Place & Date of Birth'', Key ''Tempat/Tanggal Lahir''])
                       \<in> set otherFields"
        by (simp add: otherFields_def)
      ultimately show ?thesis by blast
    qed
    then obtain e where "evalFields ?d otherFields = Inl e"
      using evalFields_throws by blast
    with t have "exportRecord t i result = Inl e"
      by (simp add: exportRecord_def exportFields_def)
    with built show False by simp
  qed
qed



lemmas export_eval =
  exportedValue_def exportRecord_def exportFields_def otherFields_def dkptkaFields_def
  dataOf_def itemOf_def baseData_def get_def orElse_def jsOr_def splitFirst_def
  splitSecondTrim_def nth_opt_def

subsection \<open>Absent keys\<close>




subsection \<open>Primary keys and fallback keys\<close>




subsection \<open>The combined birth field\<close>

lemma trim_date: "trim '' 1990-01-01'' = ''1990-01-01''"
  by code_simp

text \<open>
  Claim C4, as stated for every document type, fails: the export record of document type
  DKPTKA is another object literal, which has no column \<open>Place of Birth\<close> or
  \<open>Date of Birth\<close> and does not split the combined field.
\<close>

theorem dkptka_no_birth_columns_counterexample:
  "exportedValue ''DKPTKA'' 0 (itemOf birthRecord) ''Place of Birth'' = Inr JUndefined \<and>
   exportedValue ''DKPTKA'' 0 (itemOf birthRecord) ''Date of Birth'' = Inr JUndefined"
  by (simp add: export_eval birthRecord_def)

text \<open>
  Claim C4, amended. For every document type other than DKPTKA and every record in which
  \<open>Place & Date of Birth\<close> is \<open>Jakarta, 1990-01-01\<close> and the keys \<open>Place of Birth\<close> and
  \<open>Date of Birth\<close> are absent, the export record is built and has \<open>Jakarta\<close> in column
  \<open>Place of Birth\<close> and \<open>1990-01-01\<close>, without the blank before it, in column
  \<open>Date of Birth\<close>.
\<close>

theorem split_birth_field:
  assumes "documentType \<noteq> ''DKPTKA''"
    and "get (dataOf result) ''Place & Date of Birth'' = JStr ''Jakarta, 1990-01-01''"
    and "''Place of Birth'' \<notin> fst ` set (dataOf result)"
    and "''Date of Birth'' \<notin> fst ` set (dataOf result)"
  shows "exportedValue documentType index result ''Place of Birth'' = Inr (JStr ''Jakarta'') \<and>
         exportedValue documentType index result ''Date of Birth'' = Inr (JStr ''1990-01-01'')"
proof -
  let ?d = "dataOf result"
  from assms(2) have safe: "documentType = ''DKPTKA'' \<or> splitSafe ?d"
    by (simp add: splitSafe_def)
  have place: "(''Place of Birth'', [Key ''Place of Birth'', SplitFirst ''Place & Date of Birth''])
                 \<in> set (exportFields documentType)"
    using assms(1) by (simp add: exportFields_def otherFields_def)
  have date: "(''Date of Birth'', [Key ''Date of Birth'', SplitSecondTrim ''Place & Date of Birth'',
                   Key ''Tempat/Tanggal Lahir'']) \<in> set (exportFields documentType)"
    using assms(1) by (simp add: exportFields_def otherFields_def)
  have "resolve ?d [Key ''Place of Birth'', SplitFirst ''Place & Date of Birth''] =
          Inr (JStr ''Jakarta'')"
    using assms(2) get_absent [OF assms(3)]
    by (simp add: orElse_def splitFirst_def nth_opt_def)
  moreover have "resolve ?d [Key ''Date of Birth'', SplitSecondTrim ''Place & Date of Birth'',
                   Key ''Tempat/Tanggal Lahir''] = Inr (JStr ''1990-01-01'')"
    using assms(2) get_absent [OF assms(4)]
    by (simp add: orElse_def splitSecondTrim_def nth_opt_def trim_date)
  ultimately show ?thesis
    using exportedValue_column [OF safe place] exportedValue_column [OF safe date] by simp
qed

theorem split_birth_field_witness:
  "''EVLN'' \<noteq> ''DKPTKA'' \<and>
   get (dataOf (itemOf birthRecord)) ''Place & Date of Birth'' = JStr ''Jakarta, 1990-01-01'' \<and>
   ''Place of Birth'' \<notin> fst ` set (dataOf (itemOf birthRecord)) \<and>
   ''Date of Birth'' \<notin> fst ` set (dataOf (itemOf birthRecord)) \<and>
   exportedValue ''EVLN'' 0 (itemOf birthRecord) ''Place of Birth'' = Inr (JStr ''Jakarta'') \<and>
   exportedValue ''EVLN'' 0 (itemOf birthRecord) ''Date of Birth'' = Inr (JStr ''1990-01-01'')"
proof -
  have a: "''EVLN'' \<noteq> ''DKPTKA''" by simp
  have b: "get (dataOf (itemOf birthRecord)) ''Place & Date of Birth'' = JStr ''Jakarta, 1990-01-01''"
    by (simp add: dataOf_def itemOf_def birthRecord_def get_def)
  have c: "''Place of Birth'' \<notin> fst ` set (dataOf (itemOf birthRecord))"
    by (simp add: dataOf_def itemOf_def birthRecord_def)
  have d: "''Date of Birth'' \<notin> fst ` set (dataOf (itemOf birthRecord))"
    by (simp add: dataOf_def itemOf_def birthRecord_def)
  from split_birth_field [OF a b c d, of 0] a b c d show ?thesis
    by simp
qed

subsection \<open>The number of export records\<close>

lemma mapE_length: "mapE f xs = Inr ys \<Longrightarrow> length ys = length xs"
  by (induction xs arbitrary: ys) (auto split: sum.splits)

lemma mapE_total:
  "(\<forall>x \<in> set xs. \<exists>y. f x = Inr y) \<Longrightarrow> \<exists>ys. mapE f xs = Inr ys"
proof (induction xs)
  case Nil
  then show ?case by simp
next
  case (Cons x xs)
  then obtain y ys where "f x = Inr y" and "mapE f xs = Inr ys"
    by auto
  then show ?case by simp
qed

lemma mapE_throws: "x \<in> set xs \<Longrightarrow> f x = Inl e \<Longrightarrow> \<exists>e'. mapE f xs = Inl e'"
  by (induction xs) (auto split: sum.splits)

lemma in_set_enumerate_snd: "p \<in> set (enumerate n xs) \<Longrightarrow> snd p \<in> set xs"
  by (cases p) (auto simp: in_set_enumerate_eq)

lemma enumerate_covers: "x \<in> set xs \<Longrightarrow> \<exists>i. (i, x) \<in> set (enumerate n xs)"
proof -
  assume "x \<in> set xs"
  then obtain j where "j < length xs" and "xs ! j = x"
    by (auto simp: in_set_conv_nth)
  then have "(n + j, x) \<in> set (enumerate n xs)"
    by (simp add: in_set_enumerate_eq)
  then show ?thesis ..
qed

text \<open>
  Claim C6, as stated, fails twice. The export keeps the items that have status success
  and data, so an item with status success and no data is counted by the claim and has no
  export record. And a record whose combined birth field is a number makes
  \<^verbatim>\<open>?.split\<close> throw, which ends \<open>downloadAsExcel\<close> with no export record at all.
\<close>

theorem export_count_counterexample:
  "buildExportRecords ''SKTT'' [noDataItem] = Inr [] \<and>
   length (filter (\<lambda>r. status r = Success) [noDataItem]) = 1 \<and>
   buildExportRecords ''SKTT'' [itemOf numericBirthRecord] =
     Inl (TypeError ''split is not a function'') \<and>
   length (filter (\<lambda>r. status r = Success) [itemOf numericBirthRecord]) = 1"
  by (simp add: buildExportRecords_def successful_def noDataItem_def export_eval
      numericBirthRecord_def)

text \<open>
  Claim C6, amended. For every batch and every document type, the export records are built
  exactly when the export record of every item with status success and data is built: the
  document type is DKPTKA, or the value of the item under \<open>Place & Date of Birth\<close> is a
  string, null or absent, or its values under \<open>Place of Birth\<close> and \<open>Date of Birth\<close> are
  both truthy. Then the number of export records is the number of items of the batch that
  have status success and data. In every other case building them throws an error and
  there is no export record.
\<close>

theorem buildExportRecords_count:
  "((\<forall>r \<in> set rs. successful r \<longrightarrow> recordBuilt documentType (dataOf r)) \<longrightarrow>
      (\<exists>excelData. buildExportRecords documentType rs = Inr excelData \<and>
         length excelData = length (filter successful rs))) \<and>
   (\<not> (\<forall>r \<in> set rs. successful r \<longrightarrow> recordBuilt documentType (dataOf r)) \<longrightarrow>
      (\<exists>e. buildExportRecords documentType rs = Inl e))"
proof (intro conjI impI)
  assume all: "\<forall>r \<in> set rs. successful r \<longrightarrow> recordBuilt documentType (dataOf r)"
  have "\<forall>p \<in> set (enumerate 0 (filter successful rs)).
          \<exists>row. (\<lambda>(index, result). exportRecord documentType index result) p = Inr row"
  proof
    fix p assume p: "p \<in> set (enumerate 0 (filter successful rs))"
    then have "snd p \<in> set (filter successful rs)"
      by (rule in_set_enumerate_snd)
    with all have "recordBuilt documentType (dataOf (snd p))"
      by auto
    then show "\<exists>row. (\<lambda>(index, result). exportRecord documentType index result) p = Inr row"
      using exportRecord_built [of documentType "fst p" "snd p"] by (simp add: case_prod_beta)
  qed
  then obtain excelData where e: "buildExportRecords documentType rs = Inr excelData"
    unfolding buildExportRecords_def using mapE_total by blast
  then have "length excelData = length (filter successful rs)"
    unfolding buildExportRecords_def by (auto dest: mapE_length)
  with e show "\<exists>excelData. buildExportRecords documentType rs = Inr excelData \<and>
         length excelData = length (filter successful rs)"
    by simp
next
  assume "\<not> (\<forall>r \<in> set rs. successful r \<longrightarrow> recordBuilt documentType (dataOf r))"
  then obtain r where r: "r \<in> set (filter successful rs)"
    and n: "\<not> recordBuilt documentType (dataOf r)"
    by auto
  from enumerate_covers [OF r] obtain i where i: "(i, r) \<in> set (enumerate 0 (filter successful rs))"
    by blast
  from n exportRecord_built [of documentType i r] obtain e
    where "exportRecord documentType i r = Inl e"
    by (cases "exportRecord documentType i r") auto
  then have "(\<lambda>(index, result). exportRecord documentType index result) (i, r) = Inl e"
    by simp
  from mapE_throws
         [of "(i, r)" "enumerate 0 (filter successful rs)"
             "\<lambda>(index, result). exportRecord documentType index result" e, OF i this]
  show "\<exists>e. buildExportRecords documentType rs = Inl e"
    by (simp add: buildExportRecords_def)
qed

theorem buildExportRecords_count_witness:
  "recordBuilt ''EVLN'' (dataOf (itemOf passportRecord)) \<and>
   recordBuilt ''EVLN'' (dataOf (itemOf shieldedRecord)) \<and>
   \<not> successful failedItem \<and> \<not> successful noDataItem \<and>
   length (filter successful [itemOf passportRecord, failedItem, noDataItem, itemOf shieldedRecord])
     = 2 \<and>
   (\<exists>excelData.
      buildExportRecords ''EVLN'' [itemOf passportRecord, failedItem, noDataItem, itemOf shieldedRecord]
        = Inr excelData \<and> length excelData = 2) \<and>
   successful (itemOf arrayBirthRecord) \<and>
   \<not> recordBuilt ''EVLN'' (dataOf (itemOf arrayBirthRecord)) \<and>
   (\<exists>e. buildExportRecords ''EVLN'' [itemOf passportRecord, itemOf arrayBirthRecord] = Inl e)"
proof -
  have a: "recordBuilt ''EVLN'' (dataOf (itemOf passportRecord))"
    by (simp add: recordBuilt_def splitSafe_def dataOf_def itemOf_def passportRecord_def get_def)
  have b: "recordBuilt ''EVLN'' (dataOf (itemOf shieldedRecord))"
    by (simp add: recordBuilt_def splitSafe_def dataOf_def itemOf_def shieldedRecord_def get_def)
  have c: "\<not> successful failedItem" "\<not> successful noDataItem"
    by (simp_all add: successful_def failedItem_def noDataItem_def)
  have d: "successful (itemOf passportRecord)" "successful (itemOf shieldedRecord)"
    "successful (itemOf arrayBirthRecord)"
    by (simp_all add: successful_def itemOf_def)
  have n: "\<not> recordBuilt ''EVLN'' (dataOf (itemOf arrayBirthRecord))"
    by (simp add: recordBuilt_def splitSafe_def dataOf_def itemOf_def arrayBirthRecord_def get_def)
  from a b c have yes:
    "\<forall>r \<in> set [itemOf passportRecord, failedItem, noDataItem, itemOf shieldedRecord].
       successful r \<longrightarrow> recordBuilt ''EVLN'' (dataOf r)"
    by simp
  from d n have no:
    "\<not> (\<forall>r \<in> set [itemOf passportRecord, itemOf arrayBirthRecord].
          successful r \<longrightarrow> recordBuilt ''EVLN'' (dataOf r))"
    by simp
  from buildExportRecords_count
         [of "[itemOf passportRecord, failedItem, noDataItem, itemOf shieldedRecord]" "''EVLN''"]
       yes
  have first: "\<exists>excelData.
      buildExportRecords ''EVLN'' [itemOf passportRecord, failedItem, noDataItem, itemOf shieldedRecord]
        = Inr excelData \<and>
      length excelData =
        length (filter successful [itemOf passportRecord, failedItem, noDataItem, itemOf shieldedRecord])"
    by blast
  from buildExportRecords_count [of "[itemOf passportRecord, itemOf arrayBirthRecord]" "''EVLN''"] no
  have second: "\<exists>e. buildExportRecords ''EVLN'' [itemOf passportRecord, itemOf arrayBirthRecord] = Inl e"
    by blast
  have l: "length (filter successful [itemOf passportRecord, failedItem, noDataItem, itemOf shieldedRecord])
             = 2"
    using c d by simp
  from first l second a b c d n show ?thesis
    by (simp add: numeral_2_eq_2)
qed

subsection \<open>The export of a batch without a successful item\<close>

text \<open>
  Claim C8. When the held response has items and none of them has status success and
  data, \<open>downloadAsExcel\<close> throws nothing and hands over a CSV file in which the header
  line is empty and no data line follows: there are no export records, the headers are the
  keys of no record, and the content of the file is the empty string. No header comes from
  the columns of the document type.
\<close>

theorem empty_export:
  assumes "results r = Some rs" and "\<not> (\<exists>x \<in> set rs. successful x)"
  shows "buildExportRecords documentType rs = Inr [] \<and>
         csvHeaders [] = [] \<and>
         downloadAsExcel (Some r) documentType today =
           Inr (Some \<lparr>download_name = ''Hasil_Ekstraksi_'' @ documentType @ ''_'' @ today @ ''.csv'',
                      mime = ''text/csv'', content = []\<rparr>)"
proof -
  from assms(2) have "filter successful rs = []"
    by (simp add: filter_empty_conv)
  then have b: "buildExportRecords documentType rs = Inr []"
    by (simp add: buildExportRecords_def)
  have "csvContent [] = []"
    by (simp add: csvContent_def csvHeaders_def)
  with assms(1) b show ?thesis
    by (simp add: downloadAsExcel_def csvHeaders_def)
qed

theorem empty_export_witness:
  "results (batchOf [failedItem, noDataItem]) = Some [failedItem, noDataItem] \<and>
   \<not> successful failedItem \<and> \<not> successful noDataItem \<and>
   columnsFor ''EVLN'' \<noteq> [] \<and>
   downloadAsExcel (Some (batchOf [failedItem, noDataItem])) ''EVLN'' ''2024-01-01'' =
     Inr (Some \<lparr>download_name = ''Hasil_Ekstraksi_EVLN_2024-01-01.csv'',
                mime = ''text/csv'', content = []\<rparr>)"
proof -
  have r: "results (batchOf [failedItem, noDataItem]) = Some [failedItem, noDataItem]"
    by (simp add: batchOf_def)
  have c: "\<not> successful failedItem" "\<not> successful noDataItem"
    by (simp_all add: successful_def failedItem_def noDataItem_def)
  then have n: "\<not> (\<exists>x \<in> set [failedItem, noDataItem]. successful x)"
    by simp
  have "columnsFor ''EVLN'' \<noteq> []"
    by (simp add: columnsFor_def)
  with empty_export [OF r n, of "''EVLN''" "''2024-01-01''"] r c show ?thesis
    by simp
qed

subsection \<open>The counters of the held response\<close>

text \<open>
  Claim C9, as stated, fails in its first half: \<open>handleSubmit\<close> holds whatever response
  the server gives, with no check of its counters. Here a response of one file with two
  processed files and one failed file is held as it came.
\<close>

theorem held_inconsistent_counterexample:
  "held (handleSubmit showInt (Some [''a.pdf'']) Online False
           (SubmitAnswers inconsistentResponse) None ''upload'') = Some inconsistentResponse \<and>
   \<not> countersConsistent inconsistentResponse"
  by (simp add: handleSubmit_def heldResults_def inconsistentResponse_def countersConsistent_def)

lemma heldResults_shape: "\<exists>items. heldResults enableFileRename files d = d\<lparr>results := items\<rparr>"
proof (cases "extraction_data d")
  case None
  then have "heldResults enableFileRename files d = d\<lparr>results := results d\<rparr>"
    by (simp add: heldResults_def)
  then show ?thesis ..
next
  case (Some e)
  then have "heldResults enableFileRename files d = d\<lparr>results := Some (convertedResults files e)\<rparr>"
    by (simp add: heldResults_def)
  then show ?thesis ..
qed

text \<open>
  Claim C9, amended. Whenever \<open>handleSubmit\<close> gets a response (some file is selected and
  the API is not offline), the response it holds is the response of the server with at most
  its items replaced, with and without renaming: the three counters are those of the
  server, so the held response satisfies processedFiles + failedFiles \<le> totalFiles exactly
  when the response of the server does. The page itself does not check the counters.
\<close>

theorem conversion_keeps_counters:
  assumes "files = Some fs" and "fs \<noteq> []" and "apiStatus \<noteq> Offline"
  shows "\<exists>h items.
           held (handleSubmit render files apiStatus enableFileRename (SubmitAnswers d) before tab)
             = Some h \<and>
           h = d\<lparr>results := items\<rparr> \<and>
           total_files h = total_files d \<and>
           processed_files h = processed_files d \<and>
           failed_files h = failed_files d \<and>
           countersConsistent h = countersConsistent d"
proof -
  obtain items where h: "heldResults enableFileRename fs d = d\<lparr>results := items\<rparr>"
    using heldResults_shape by blast
  from assms
  have "held (handleSubmit render files apiStatus enableFileRename (SubmitAnswers d) before tab)
      = Some (heldResults enableFileRename fs d)"
    by (simp add: handleSubmit_def)
  with h
  have "held (handleSubmit render files apiStatus enableFileRename (SubmitAnswers d) before tab)
      = Some (d\<lparr>results := items\<rparr>)"
    by simp
  moreover have "countersConsistent (d\<lparr>results := items\<rparr>) = countersConsistent d"
    by (simp add: countersConsistent_def)
  ultimately show ?thesis
    by (intro exI [of _ "d\<lparr>results := items\<rparr>"] exI [of _ items]) simp
qed

theorem conversion_keeps_counters_witness:
  "Some [''a.pdf'', ''b.pdf'', ''c.pdf''] = Some [''a.pdf'', ''b.pdf'', ''c.pdf''] \<and>
   [''a.pdf'', ''b.pdf'', ''c.pdf''] \<noteq> [] \<and> Online \<noteq> Offline \<and>
   countersConsistent threeFilesResponse \<and>
   (\<exists>h. held (handleSubmit showInt (Some [''a.pdf'', ''b.pdf'', ''c.pdf'']) Online True
                  (SubmitAnswers threeFilesResponse) None ''upload'') = Some h \<and>
        total_files h = 3 \<and> processed_files h = 2 \<and> failed_files h = Some 1 \<and>
        countersConsistent h)"
proof -
  have a: "Some [''a.pdf'', ''b.pdf'', ''c.pdf''] = Some [''a.pdf'', ''b.pdf'', ''c.pdf'']"
    by simp
  have b: "[''a.pdf'', ''b.pdf'', ''c.pdf''] \<noteq> []"
    by simp
  have c: "Online \<noteq> Offline"
    by simp
  have t: "total_files threeFilesResponse = 3" "processed_files threeFilesResponse = 2"
    "failed_files threeFilesResponse = Some 1"
    by (simp_all add: threeFilesResponse_def)
  then have k: "countersConsistent threeFilesResponse"
    by (simp add: countersConsistent_def)
  from conversion_keeps_counters [OF a b c, of showInt True threeFilesResponse None "''upload''"]
  obtain h where "held (handleSubmit showInt (Some [''a.pdf'', ''b.pdf'', ''c.pdf'']) Online True
                  (SubmitAnswers threeFilesResponse) None ''upload'') = Some h"
    and "total_files h = total_files threeFilesResponse"
    and "processed_files h = processed_files threeFilesResponse"
    and "failed_files h = failed_files threeFilesResponse"
    and "countersConsistent h = countersConsistent threeFilesResponse"
    by blast
  with t k show ?thesis
    by (intro conjI a b c exI [of _ h]) simp_all
qed

subsection \<open>Retries of the downloads\<close>

lemma fetches_Nil: "fetches [] = 0"
  by (simp add: fetches_def)

lemma fetches_Cons:
  "fetches (e # es) = (case e of Fetch _ _ \<Rightarrow> Suc (fetches es) | _ \<Rightarrow> fetches es)"
  by (simp add: fetches_def split: Effect.splits)

lemma fetches_append: "fetches (es @ fs) = fetches es + fetches fs"
  by (simp add: fetches_def)

lemma afterFetch_no_fetch: "fetches (fst (afterFetch art render fileName retryCount outcome)) = 0"
  by (simp add: afterFetch_def catchBlock_def fetches_def Let_def split: FetchOutcome.splits)

lemma budget_plusOne: "lessThan2 retryCount \<Longrightarrow> Suc (budget (plusOne retryCount)) \<le> budget retryCount"
  by (cases retryCount) (auto simp: budget_def)

lemma budget_pos: "1 \<le> budget retryCount"
  by (cases retryCount) (auto simp: budget_def)

lemma budget_le_3: "budget retryCount \<le> 3"
  by (cases retryCount) (auto simp: budget_def)

lemma budget_spent: "\<not> lessThan2 retryCount \<Longrightarrow> budget retryCount = 1"
  by (cases retryCount) (auto simp: budget_def)

lemma empty_not_retryWorthy:
  "\<not> retryWorthy ''Downloaded file is empty''" "\<not> retryWorthy ''Downloaded Excel file is empty''"
  by (simp_all add: retryWorthy_def)

lemma catchBlock_snd:
  "snd (catchBlock art retryCount thrown) =
     (lessThan2 retryCount \<and> retryWorthy (errorMessageOf thrown))"
  by (simp add: catchBlock_def Let_def)

lemma afterFetch_snd:
  "snd (afterFetch art render fileName retryCount outcome) =
     (lessThan2 retryCount \<and> retriedOutcome outcome)"
proof (cases outcome)
  case (Throws thrown)
  then show ?thesis
    by (simp add: afterFetch_def catchBlock_snd retriedOutcome_def)
next
  case (Responds response)
  have e: "errorMessageOf (Err m) = m" for m
    by (simp add: errorMessageOf_def)
  from Responds show ?thesis
    by (cases art) (auto simp: afterFetch_def catchBlock_snd retriedOutcome_def e empty_not_retryWorthy)
qed

lemma catchBlock_sleeps: "Sleep ms \<in> set (fst (catchBlock art retryCount thrown)) \<Longrightarrow> ms = 2000"
  by (simp add: catchBlock_def Let_def split: if_splits)

lemma afterFetch_sleeps:
  assumes "Sleep ms \<in> set (fst (afterFetch art render fileName retryCount outcome))"
  shows "ms = 3000 \<or> ms = 2000"
proof (cases outcome)
  case (Throws thrown)
  with assms show ?thesis
    by (simp add: afterFetch_def catchBlock_sleeps)
next
  case (Responds response)
  with assms show ?thesis
    by (auto simp: afterFetch_def split: if_splits dest: catchBlock_sleeps)
qed

lemma catchBlock_final:
  "\<not> snd (catchBlock art retryCount thrown) \<Longrightarrow>
   \<exists>t. fst (catchBlock art retryCount thrown) = [Notify t] \<and> destructive t \<and>
       title t \<in> {''Download Error'', ''Excel Download Error''}"
  by (cases art) (simp_all add: catchBlock_def Let_def split: if_splits)

lemma surfaced_catch:
  "\<not> snd (catchBlock art retryCount thrown) \<Longrightarrow> surfaced (e # fst (catchBlock art retryCount thrown))"
  using catchBlock_final [of art retryCount thrown] by (auto simp: surfaced_def)

lemma afterFetch_final:
  assumes "\<not> snd (afterFetch art render fileName retryCount outcome)"
  shows "surfaced (e # fst (afterFetch art render fileName retryCount outcome))"
proof (cases outcome)
  case (Throws thrown)
  with assms show ?thesis
    by (simp add: afterFetch_def surfaced_catch)
next
  case (Responds response)
  show ?thesis
  proof (cases "ok response \<and> blob_size response \<noteq> 0")
    case True
    with Responds have "Save fileName (blob_size response)
        \<in> set (e # fst (afterFetch art render fileName retryCount outcome))"
      by (simp add: afterFetch_def)
    then show ?thesis
      unfolding surfaced_def by blast
  next
    case False
    with Responds assms show ?thesis
      by (auto simp: afterFetch_def surfaced_catch split: if_splits)
  qed
qed

lemma surfaced_append: "surfaced es \<Longrightarrow> surfaced (ds @ es)"
  by (auto simp: surfaced_def)

lemma download_unlinked:
  "linked art res = None \<Longrightarrow>
   \<exists>t. download art world res k retryCount = [Notify t] \<and> title t = ''Error'' \<and> destructive t"
  by (subst download.simps) (auto simp: linked_def split: option.splits if_splits)

lemma download_linked:
  "linked art res = Some path \<Longrightarrow>
   download art world res k retryCount =
     Fetch (API_URL world @ path) (fetchTimeout art) #
     fst (afterFetch art (sizeText world) (fileNameOf art path) retryCount (outcomes world k)) @
     (if snd (afterFetch art (sizeText world) (fileNameOf art path) retryCount (outcomes world k))
      then download art world res (Suc k) (plusOne retryCount) else [])"
  by (subst download.simps) (auto simp: linked_def split: option.splits if_splits)

lemma unlinked_fetches: "linked art res = None \<Longrightarrow> fetches (download art world res k retryCount) = 0"
  using download_unlinked [of art res world k retryCount] by (auto simp: fetches_def)

lemma linked_fetches:
  "linked art res = Some path \<Longrightarrow>
   fetches (download art world res k retryCount) =
     Suc (if lessThan2 retryCount \<and> retriedOutcome (outcomes world k)
          then fetches (download art world res (Suc k) (plusOne retryCount)) else 0)"
  by (simp add: download_linked [of art res path world k retryCount] fetches_Cons fetches_append
      afterFetch_no_fetch afterFetch_snd fetches_Nil)

lemma fetches_budget: "fetches (download art world res k retryCount) \<le> budget retryCount"
proof (induction art world res k retryCount rule: download.induct)
  case (1 art world res k retryCount)
  show ?case
  proof (cases "linked art res")
    case None
    then show ?thesis
      by (simp add: unlinked_fetches)
  next
    case (Some path)
    then obtain r where r: "res = Some r" and link: "linkOf art r = Some path" and ne: "path \<noteq> []"
      by (auto simp: linked_def split: option.splits if_splits)
    let ?a = "afterFetch art (sizeText world) (fileNameOf art path) retryCount (outcomes world k)"
    show ?thesis
    proof (cases "snd ?a")
      case True
      then have lt: "lessThan2 retryCount"
        by (rule afterFetch_again)
      from "1.IH" [OF r link ne True]
      have "fetches (download art world res (Suc k) (plusOne retryCount)) \<le> budget (plusOne retryCount)" .
      with budget_plusOne [OF lt] True show ?thesis
        by (simp add: download_linked [OF Some, of world k retryCount] fetches_Cons fetches_append
            afterFetch_no_fetch)
    next
      case False
      with budget_pos [of retryCount] show ?thesis
        by (simp add: download_linked [OF Some, of world k retryCount] fetches_Cons fetches_append
            afterFetch_no_fetch fetches_Nil)
    qed
  qed
qed

lemma retried_only:
  "Suc j < fetches (download art world res k retryCount) \<Longrightarrow> retriedOutcome (outcomes world (k + j))"
proof (induction j arbitrary: k retryCount)
  case 0
  show ?case
  proof (cases "linked art res")
    case None
    with 0 show ?thesis by (simp add: unlinked_fetches)
  next
    case (Some path)
    with 0 show ?thesis
      by (simp add: linked_fetches [OF Some, of world k retryCount] split: if_splits)
  qed
next
  case (Suc j)
  show ?case
  proof (cases "linked art res")
    case None
    with Suc.prems show ?thesis by (simp add: unlinked_fetches)
  next
    case (Some path)
    with Suc.prems have "Suc j < fetches (download art world res (Suc k) (plusOne retryCount))"
      by (simp add: linked_fetches [OF Some, of world k retryCount] split: if_splits)
    from Suc.IH [OF this] show ?thesis by simp
  qed
qed

lemma download_sleeps:
  "Sleep ms \<in> set (download art world res k retryCount) \<Longrightarrow> ms = 3000 \<or> ms = 2000"
proof (induction art world res k retryCount rule: download.induct)
  case (1 art world res k retryCount)
  show ?case
  proof (cases "linked art res")
    case None
    from download_unlinked [OF None, of world k retryCount] "1.prems" show ?thesis
      by auto
  next
    case (Some path)
    then obtain r where r: "res = Some r" and link: "linkOf art r = Some path" and ne: "path \<noteq> []"
      by (auto simp: linked_def split: option.splits if_splits)
    let ?a = "afterFetch art (sizeText world) (fileNameOf art path) retryCount (outcomes world k)"
    from "1.prems" have "Sleep ms \<in> set (fst ?a) \<or>
        (snd ?a \<and> Sleep ms \<in> set (download art world res (Suc k) (plusOne retryCount)))"
      by (simp add: download_linked [OF Some, of world k retryCount] split: if_splits)
    then show ?thesis
      using afterFetch_sleeps "1.IH" [OF r link ne] by blast
  qed
qed

lemma download_surfaced: "surfaced (download art world res k retryCount)"
proof (induction art world res k retryCount rule: download.induct)
  case (1 art world res k retryCount)
  show ?case
  proof (cases "linked art res")
    case None
    from download_unlinked [OF None, of world k retryCount]
    obtain t where "download art world res k retryCount = [Notify t]" "title t = ''Error''"
      "destructive t"
      by blast
    then show ?thesis
      by (simp add: surfaced_def)
  next
    case (Some path)
    then obtain r where r: "res = Some r" and link: "linkOf art r = Some path" and ne: "path \<noteq> []"
      by (auto simp: linked_def split: option.splits if_splits)
    let ?a = "afterFetch art (sizeText world) (fileNameOf art path) retryCount (outcomes world k)"
    show ?thesis
    proof (cases "snd ?a")
      case True
      from "1.IH" [OF r link ne True]
      have "surfaced (download art world res (Suc k) (plusOne retryCount))" .
      then have "surfaced ((Fetch (API_URL world @ path) (fetchTimeout art) # fst ?a) @
                   download art world res (Suc k) (plusOne retryCount))"
        by (rule surfaced_append)
      with True show ?thesis
        by (simp add: download_linked [OF Some, of world k retryCount])
    next
      case False
      from afterFetch_final [OF False] False show ?thesis
        by (simp add: download_linked [OF Some, of world k retryCount])
    qed
  qed
qed

lemma linked_sample: "linked Zip (Some linkedBatch) = Some ''/download/renamed.zip''"
  by (simp add: linked_def linkOf_def linkedBatch_def)

lemma fileName_sample: "fileNameOf Zip ''/download/renamed.zip'' = ''renamed.zip''"
  by code_simp



lemma afterFetch_click:
  "afterFetch Zip (\<lambda>n. ''0.00'') ''renamed.zip'' ClickEvent (Responds notFoundResponse) =
     ([Notify \<lparr>title = ''Download Error'',
               description = ''Failed to download ZIP file: HTTP 404: Not Found'',
               destructive = True\<rparr>], False)"
  by code_simp


text \<open>
  The buttons pass the two functions as \<open>onClick\<close> handlers, so a click calls them with the
  click event for \<open>retryCount\<close>: no comparison \<^verbatim>\<open>retryCount < 2\<close> holds, and a download
  started by a click is never tried again, not even after a 404.
\<close>

lemma click_never_retries:
  "downloadRenamedZip (worldOf alwaysNotFound) (Some linkedBatch) ClickEvent =
     [Fetch ''https://api.example/download/renamed.zip'' 60000,
      Notify \<lparr>title = ''Download Error'',
              description = ''Failed to download ZIP file: HTTP 404: Not Found'',
              destructive = True\<rparr>]"
  using download_linked [OF linked_sample, of "worldOf alwaysNotFound" 0 ClickEvent]
  by (simp add: downloadRenamedZip_def worldOf_def alwaysNotFound_def fetchTimeout_def
      fileName_sample afterFetch_click)

text \<open>
  What holds of every call of \<open>downloadRenamedZip\<close> and of \<open>downloadExcelFromBackend\<close>
  (the function \<open>download\<close> for the two artifacts, from any count and any fetch number):
  it makes at most three requests, and at most one when its count is not a number below 2;
  a further request follows only an outcome of \<open>retriedOutcome\<close>; every wait is of 3000 or
  of 2000 ms; and the call ends with a saved file or with the toast of a final error.
\<close>

lemma download_retry_discipline:
  "fetches (download art world res k retryCount) \<le> 3 \<and>
   (\<not> lessThan2 retryCount \<longrightarrow> fetches (download art world res k retryCount) \<le> 1) \<and>
   (Suc j < fetches (download art world res k retryCount) \<longrightarrow>
      retriedOutcome (outcomes world (k + j))) \<and>
   (Sleep ms \<in> set (download art world res k retryCount) \<longrightarrow> ms = 3000 \<or> ms = 2000) \<and>
   surfaced (download art world res k retryCount)"
proof -
  have b: "fetches (download art world res k retryCount) \<le> budget retryCount"
    by (rule fetches_budget)
  with budget_le_3 [of retryCount] have "fetches (download art world res k retryCount) \<le> 3"
    by simp
  moreover have "fetches (download art world res k retryCount) \<le> 1" if "\<not> lessThan2 retryCount"
    using b budget_spent [OF that] by simp
  ultimately show ?thesis
    using retried_only [of j art world res k retryCount]
      download_sleeps [of ms art world res k retryCount]
      download_surfaced [of art world res k retryCount]
    by blast
qed

lemma notFound_retried: "retriedOutcome (Responds notFoundResponse)"
  by (simp add: retriedOutcome_def ok_def notFoundResponse_def)

lemma notFound_fetches:
  "fetches (download Zip (worldOf alwaysNotFound) (Some linkedBatch) 0 (Count 0)) = 3"
proof -
  let ?w = "worldOf alwaysNotFound"
  have o: "outcomes ?w n = Responds notFoundResponse" for n
    by (simp add: worldOf_def alwaysNotFound_def)
  have "fetches (download Zip ?w (Some linkedBatch) (Suc (Suc 0)) (Count (Suc (Suc 0)))) = Suc 0"
    using linked_fetches [OF linked_sample, of ?w "Suc (Suc 0)" "Count (Suc (Suc 0))"]
    by simp
  then have "fetches (download Zip ?w (Some linkedBatch) (Suc 0) (Count (Suc 0))) = Suc (Suc 0)"
    using linked_fetches [OF linked_sample, of ?w "Suc 0" "Count (Suc 0)"]
    by (simp add: o notFound_retried)
  then show ?thesis
    using linked_fetches [OF linked_sample, of ?w 0 "Count 0"]
    by (simp add: o notFound_retried)
qed

end
